theory Spec2Isabelle
  imports Main
begin

section \<open>cf-ddns: a shallow embedding of \<^verbatim>\<open>src/cf-ddns.py\<close>\<close>

text \<open>
  The program keeps a Cloudflare DNS record in step with the machine's external
  addresses. Everything it does beyond computing is made explicit here: exceptions are
  the left summand of a result, the requests it sends and the calls it makes to its
  logger are collected in a state that every operation returns, and the things it only
  consumes (the C library's address parser, the process environment, the network, the
  iteration order of a Python set, the log file) are the fields of a record \<open>world\<close>.

  A Python \<^verbatim>\<open>str\<close> is a \<open>string\<close>; one \<open>char\<close> stands for one code point
  below 256.
\<close>

subsection \<open>Python values\<close>

text \<open>
  What \<^verbatim>\<open>r.json()\<close> returns, and what goes out as a request body. \<open>JNull\<close> is
  \<^verbatim>\<open>None\<close>. A dict is the list of its items, looked up with \<open>map_of\<close>. A
  number is kept as an integer: the program only tests numbers for truth and compares
  them with a bool, where a float that is not integral behaves as any integer other
  than 0 and 1.
\<close>

datatype json =
    JNull
  | JBool bool
  | JNum int
  | JStr string
  | JArr "json list"
  | JObj "(string \<times> json) list"

datatype error =
    EnvironmentError string
  | ValueError string
  | TypeError
  | KeyError
  | IndexError
  | OSError
  | JSONDecodeError
  | HTTPError nat
  | RequestException string

text \<open>Truth of a value, as \<^verbatim>\<open>if x:\<close> and \<^verbatim>\<open>and\<close> test it.\<close>

fun truthy :: "json \<Rightarrow> bool" where
  "truthy JNull = False"
| "truthy (JBool b) = b"
| "truthy (JNum n) = (n \<noteq> 0)"
| "truthy (JStr s) = (s \<noteq> [])"
| "truthy (JArr xs) = (xs \<noteq> [])"
| "truthy (JObj kvs) = (kvs \<noteq> [])"

fun contains_str :: "string \<Rightarrow> string \<Rightarrow> bool" where
  "contains_str sub [] = (sub = [])"
| "contains_str sub (c # cs) = (take (length sub) (c # cs) = sub \<or> contains_str sub cs)"

text \<open>\<^verbatim>\<open>k in d\<close> for a string \<open>k\<close>: a key of a dict, an element of a list, a
  substring of a string; anything else is not iterable.\<close>

fun py_in :: "string \<Rightarrow> json \<Rightarrow> error + bool" where
  "py_in k (JObj kvs) = Inr (k \<in> fst ` set kvs)"
| "py_in k (JArr xs) = Inr (JStr k \<in> set xs)"
| "py_in k (JStr s) = Inr (contains_str k s)"
| "py_in k v = Inl TypeError"

text \<open>\<^verbatim>\<open>d[k]\<close> for a string \<open>k\<close>.\<close>

fun getitem :: "json \<Rightarrow> string \<Rightarrow> error + json" where
  "getitem (JObj kvs) k = (case map_of kvs k of None \<Rightarrow> Inl KeyError | Some v \<Rightarrow> Inr v)"
| "getitem v k = Inl TypeError"

text \<open>\<^verbatim>\<open>x[0]\<close>. The keys of a parsed JSON object are strings, so a dict has no
  key \<open>0\<close>.\<close>

fun getitem0 :: "json \<Rightarrow> error + json" where
  "getitem0 (JArr xs) = (case xs of [] \<Rightarrow> Inl IndexError | x # _ \<Rightarrow> Inr x)"
| "getitem0 (JStr s) = (case s of [] \<Rightarrow> Inl IndexError | c # _ \<Rightarrow> Inr (JStr [c]))"
| "getitem0 (JObj kvs) = Inl KeyError"
| "getitem0 v = Inl TypeError"

text \<open>\<^verbatim>\<open>x == s\<close> for a string \<open>s\<close>, and \<^verbatim>\<open>x == b\<close> for a bool \<open>b\<close>
  (in Python \<^verbatim>\<open>1 == True\<close> and \<^verbatim>\<open>0 == False\<close>).\<close>

fun eq_str :: "json \<Rightarrow> string \<Rightarrow> bool" where
  "eq_str (JStr t) s = (t = s)"
| "eq_str v s = False"

fun eq_bool :: "json \<Rightarrow> bool \<Rightarrow> bool" where
  "eq_bool (JBool c) b = (c = b)"
| "eq_bool (JNum n) b = (n = (if b then 1 else 0))"
| "eq_bool v b = False"

subsection \<open>Strings\<close>

text \<open>The code points below 256 that \<^verbatim>\<open>str.strip()\<close> removes.\<close>

definition py_isspace :: "char \<Rightarrow> bool" where
  "py_isspace c = ((of_char c :: nat) \<in> set [9, 10, 11, 12, 13, 28, 29, 30, 31, 32, 133, 160])"

definition strip :: "string \<Rightarrow> string" where
  "strip s = rev (dropWhile py_isspace (rev (dropWhile py_isspace s)))"

text \<open>\<^verbatim>\<open>s.split(c)\<close>: one part more than there are separators, empty parts kept.\<close>

fun split :: "char \<Rightarrow> string \<Rightarrow> string list" where
  "split c [] = [[]]"
| "split c (x # xs) =
     (if x = c then [] # split c xs
      else (let ps = split c xs in (x # hd ps) # tl ps))"

text \<open>\<^verbatim>\<open>sep.join(parts)\<close>.\<close>

fun join :: "string \<Rightarrow> string list \<Rightarrow> string" where
  "join sep [] = []"
| "join sep [p] = p"
| "join sep (p # q # ps) = p @ sep @ join sep (q # ps)"

text \<open>\<^verbatim>\<open>xs[-2:]\<close>: the last two elements, or all of a shorter list.\<close>

definition last2 :: "'a list \<Rightarrow> 'a list" where
  "last2 xs = drop (length xs - 2) xs"

subsection \<open>The address parser\<close>

text \<open>
  \<^verbatim>\<open>socket.inet_pton\<close> hands the string to the C library's \<^verbatim>\<open>inet_pton\<close>,
  which is a field of the world. The two functions below are that parser as glibc
  writes it, for the worlds of the examples; the theorems hold for any parser.
\<close>

datatype family = AF_INET | AF_INET6

definition digit_value :: "char \<Rightarrow> int option" where
  "digit_value ch =
     (let n = (of_char ch :: int) in if 48 \<le> n \<and> n \<le> 57 then Some (n - 48) else None)"

definition hex_digit_value :: "char \<Rightarrow> int option" where
  "hex_digit_value ch =
     (let n = (of_char ch :: int) in
      if 48 \<le> n \<and> n \<le> 57 then Some (n - 48)
      else if 97 \<le> n \<and> n \<le> 102 then Some (n - 87)
      else if 65 \<le> n \<and> n \<le> 70 then Some (n - 55)
      else None)"

text \<open>\<open>done\<close> holds the octets finished so far, \<open>cur\<close> the one being read. The
  values of digits and octets are integers, the counters natural numbers.\<close>

fun pton4_loop :: "string \<Rightarrow> int list \<Rightarrow> int \<Rightarrow> bool \<Rightarrow> nat \<Rightarrow> int list option" where
  "pton4_loop [] done cur saw_digit octets =
     (if octets < 4 then None else Some (done @ [cur]))"
| "pton4_loop (ch # src) done cur saw_digit octets =
     (case digit_value ch of
        Some d \<Rightarrow>
          (let new = cur * 10 + d in
           if saw_digit \<and> cur = 0 then None
           else if new > 255 then None
           else if \<not> saw_digit then
             (if octets + 1 > 4 then None else pton4_loop src done new True (octets + 1))
           else pton4_loop src done new True octets)
      | None \<Rightarrow>
          (if ch = CHR ''.'' \<and> saw_digit then
             (if octets = 4 then None else pton4_loop src (done @ [cur]) 0 False octets)
           else None))"

definition inet_pton4 :: "string \<Rightarrow> int list option" where
  "inet_pton4 src = pton4_loop src [] 0 False 0"

definition pton6_finish :: "int list \<Rightarrow> nat option \<Rightarrow> nat \<Rightarrow> int \<Rightarrow> int list option" where
  "pton6_finish tp colonp xdigits_seen val =
     (if xdigits_seen > 0 \<and> length tp + 2 > 16 then None
      else
        (let tp1 = (if xdigits_seen > 0 then tp @ [val div 256, val mod 256] else tp) in
         case colonp of
           Some c \<Rightarrow>
             (if length tp1 = 16 then None
              else Some (take c tp1 @ replicate (16 - length tp1) 0 @ drop c tp1))
         | None \<Rightarrow> (if length tp1 \<noteq> 16 then None else Some tp1)))"

fun pton6_loop ::
  "string \<Rightarrow> int list \<Rightarrow> nat option \<Rightarrow> string \<Rightarrow> nat \<Rightarrow> int \<Rightarrow> int list option" where
  "pton6_loop [] tp colonp curtok xdigits_seen val = pton6_finish tp colonp xdigits_seen val"
| "pton6_loop (ch # src) tp colonp curtok xdigits_seen val =
     (case hex_digit_value ch of
        Some d \<Rightarrow>
          (if xdigits_seen = 4 then None
           else (let v = val * 16 + d in
                 if v > 65535 then None
                 else pton6_loop src tp colonp curtok (xdigits_seen + 1) v))
      | None \<Rightarrow>
          (if ch = CHR '':'' then
             (if xdigits_seen = 0 then
                (if colonp \<noteq> None then None
                 else pton6_loop src tp (Some (length tp)) src 0 val)
              else if src = [] then None
              else if length tp + 2 > 16 then None
              else pton6_loop src (tp @ [val div 256, val mod 256]) colonp src 0 0)
           else if ch = CHR ''.'' \<and> length tp + 4 \<le> 16 then
             (case inet_pton4 curtok of
                Some b \<Rightarrow> pton6_finish (tp @ b) colonp 0 val
              | None \<Rightarrow> None)
           else None))"

definition inet_pton6 :: "string \<Rightarrow> int list option" where
  "inet_pton6 src =
     (case src of
        [] \<Rightarrow> None
      | ch # rest \<Rightarrow>
          (if ch = CHR '':'' then
             (case rest of
                [] \<Rightarrow> None
              | ch' # _ \<Rightarrow> (if ch' \<noteq> CHR '':'' then None else pton6_loop rest [] None rest 0 0))
           else pton6_loop src [] None src 0 0))"

definition glibc_inet_pton :: "family \<Rightarrow> string \<Rightarrow> int list option" where
  "glibc_inet_pton af src = (case af of AF_INET \<Rightarrow> inet_pton4 src | AF_INET6 \<Rightarrow> inet_pton6 src)"

subsection \<open>Requests, the world and the state\<close>

text \<open>
  A request path of the provider's API. \<^verbatim>\<open>'/zones/{}/dns_records'.format(zone_id)\<close>
  is \<open>DnsRecords zone_id\<close> and \<^verbatim>\<open>req_path + '/' + rec_id\<close> is
  \<open>DnsRecord zone_id rec_id\<close>: the path is kept in parts, so that nothing depends on how
  Python prints a zone identifier that is not a string.
\<close>

datatype api_path = Zones | DnsRecords json | DnsRecord json string

datatype target =
    Url string                \<comment> \<open>the argument of \<^verbatim>\<open>requests.get\<close>\<close>
  | Api string api_path       \<comment> \<open>\<^verbatim>\<open>self.base_url + req_path\<close>\<close>

record request =
  http_method :: string
  target :: target
  params :: "(string \<times> string) list option"
  headers :: "(string \<times> string) list"
  body :: "json option"

text \<open>A response: \<open>parsed\<close> is what \<^verbatim>\<open>r.json()\<close> returns, \<open>None\<close> when the
  text is not JSON.\<close>

record response =
  status :: nat
  text_of :: string
  parsed :: "json option"

datatype level = DEBUG | INFO | ERROR

datatype log_arg = V json | T target | X error

type_synonym log_entry = "level \<times> string \<times> log_arg list"

text \<open>
  The state: the requests sent so far and the calls made to the logger, both in order.
\<close>

record state =
  sent :: "request list"
  logged :: "log_entry list"

text \<open>
  The world the program runs in. \<open>network w history rq\<close> is the outcome of sending
  \<open>rq\<close> after the requests \<open>history\<close>: a response, or the message of the exception
  that \<^verbatim>\<open>requests\<close> raises when no response arrives. \<open>set_order w\<close> is the order
  in which Python iterates a set whose elements were added in the given order.
  \<open>log_file_opens w\<close> is whether the log file in the home directory can be opened.
\<close>

record world =
  libc_inet_pton :: "family \<Rightarrow> string \<Rightarrow> int list option"
  getenv :: "string \<Rightarrow> string option"
  network :: "request list \<Rightarrow> request \<Rightarrow> string + response"
  set_order :: "string list \<Rightarrow> string list"
  log_file_opens :: bool

type_synonym 'a result = "(error + 'a) \<times> state"

definition log_call :: "level \<Rightarrow> string \<Rightarrow> log_arg list \<Rightarrow> state \<Rightarrow> state" where
  "log_call lv fmt args st = st\<lparr>logged := logged st @ [(lv, fmt, args)]\<rparr>"

definition send :: "world \<Rightarrow> request \<Rightarrow> state \<Rightarrow> response result" where
  "send w rq st =
     (case network w (sent st) rq of
        Inl msg \<Rightarrow> (Inl (RequestException msg), st\<lparr>sent := sent st @ [rq]\<rparr>)
      | Inr r \<Rightarrow> (Inr r, st\<lparr>sent := sent st @ [rq]\<rparr>))"

text \<open>\<^verbatim>\<open>r.raise_for_status()\<close> and \<^verbatim>\<open>r.ok\<close>, which is whether it raises.\<close>

definition raise_for_status :: "response \<Rightarrow> error + unit" where
  "raise_for_status r =
     (if 400 \<le> status r \<and> status r < 600 then Inl (HTTPError (status r)) else Inr ())"

definition ok :: "response \<Rightarrow> bool" where
  "ok r = (case raise_for_status r of Inl e \<Rightarrow> False | Inr u \<Rightarrow> True)"

definition is_write :: "request \<Rightarrow> bool" where
  "is_write rq = (http_method rq = ''POST'' \<or> http_method rq = ''PUT'')"

text \<open>The last call to the logger was \<^verbatim>\<open>self.log.error('Request failed: %s', r.text)\<close>.\<close>

definition request_failed_logged :: "state \<Rightarrow> bool" where
  "request_failed_logged st =
     (logged st \<noteq> [] \<and> fst (last (logged st)) = ERROR
      \<and> fst (snd (last (logged st))) = ''Request failed: %s'')"

subsection \<open>class Cloudflare\<close>

record cloudflare =
  base_url :: string
  auth_headers :: "(string \<times> string) list"
  zone_id :: json

text \<open>
  \<^verbatim>\<open>socket.inet_pton(af, s)\<close>: a string with an embedded null character is
  refused with \<^verbatim>\<open>ValueError\<close> when the arguments are converted, before the C
  library sees it; a string the C library does not accept gives \<^verbatim>\<open>OSError\<close>,
  which is \<^verbatim>\<open>socket.error\<close>.
\<close>

definition socket_inet_pton :: "world \<Rightarrow> family \<Rightarrow> string \<Rightarrow> error + int list" where
  "socket_inet_pton w af s =
     (if CHR 0x00 \<in> set s then Inl (ValueError ''embedded null character'')
      else (case libc_inet_pton w af s of None \<Rightarrow> Inl OSError | Some packed \<Rightarrow> Inr packed))"

text \<open>The packed address is returned as it is and tested for truth by the caller;
  \<^verbatim>\<open>except socket.error\<close> turns \<open>OSError\<close>, and nothing else, into
  \<^verbatim>\<open>False\<close>.\<close>

datatype is_ip = Packed "int list" | No

fun is_ip_truthy :: "is_ip \<Rightarrow> bool" where
  "is_ip_truthy (Packed bs) = (bs \<noteq> [])"
| "is_ip_truthy No = False"

definition is_ipv4 :: "world \<Rightarrow> string \<Rightarrow> error + is_ip" where
  "is_ipv4 w ip_address =
     (case socket_inet_pton w AF_INET ip_address of
        Inr packed \<Rightarrow> Inr (Packed packed)
      | Inl OSError \<Rightarrow> Inr No
      | Inl e \<Rightarrow> Inl e)"

definition is_ipv6 :: "world \<Rightarrow> string \<Rightarrow> error + is_ip" where
  "is_ipv6 w ip_address =
     (case socket_inet_pton w AF_INET6 ip_address of
        Inr packed \<Rightarrow> Inr (Packed packed)
      | Inl OSError \<Rightarrow> Inr No
      | Inl e \<Rightarrow> Inl e)"

definition get_record_type :: "world \<Rightarrow> string \<Rightarrow> state \<Rightarrow> string option result" where
  "get_record_type w ip_addr st =
     (let st1 = log_call DEBUG ''%s: Getting record type ...'' [V (JStr ip_addr)] st in
      case is_ipv4 w ip_addr of
        Inl e \<Rightarrow> (Inl e, st1)
      | Inr v4 \<Rightarrow>
          (if is_ip_truthy v4 then (Inr (Some ''A''), st1)
           else (case is_ipv6 w ip_addr of
                   Inl e \<Rightarrow> (Inl e, st1)
                 | Inr v6 \<Rightarrow>
                     (if is_ip_truthy v6 then (Inr (Some ''AAAA''), st1)
                      else (Inr None, st1)))))"

definition params_arg :: "(string \<times> string) list option \<Rightarrow> log_arg" where
  "params_arg ps = (case ps of None \<Rightarrow> V JNull | Some kvs \<Rightarrow> V (JObj (map (\<lambda>(k, v). (k, JStr v)) kvs)))"

definition data_arg :: "json option \<Rightarrow> log_arg" where
  "data_arg d = (case d of None \<Rightarrow> V JNull | Some v \<Rightarrow> V v)"

text \<open>\<^verbatim>\<open>self.api.request(method, self.base_url + req_path, params=params,
  headers=self.headers, json=data)\<close>, the request it sends.\<close>

definition api_request ::
  "cloudflare \<Rightarrow> string \<Rightarrow> api_path \<Rightarrow> (string \<times> string) list option \<Rightarrow> json option
     \<Rightarrow> request" where
  "api_request self meth req_path ps data =
     \<lparr>http_method = meth, target = Api (base_url self) req_path, params = ps,
      headers = auth_headers self, body = data\<rparr>"

definition call_api ::
  "world \<Rightarrow> cloudflare \<Rightarrow> string \<Rightarrow> api_path \<Rightarrow> (string \<times> string) list option \<Rightarrow> json option
     \<Rightarrow> state \<Rightarrow> json result" where
  "call_api w self meth req_path ps data st =
     (let st1 = log_call DEBUG ''API request: %s %s params:%s data:%s ...''
                  [V (JStr meth), T (Api (base_url self) req_path), params_arg ps, data_arg data] st
      in case send w (api_request self meth req_path ps data) st1 of
           (Inl e, st2) \<Rightarrow> (Inl e, st2)
         | (Inr r, st2) \<Rightarrow>
             (if ok r then
                (let st3 = log_call DEBUG ''API response: %s'' [V (JStr (text_of r))] st2 in
                 case parsed r of
                   None \<Rightarrow> (Inl JSONDecodeError, st3)
                 | Some d \<Rightarrow> (Inr d, st3))
              else
                (let st3 = log_call ERROR ''Request failed: %s'' [V (JStr (text_of r))] st2 in
                 case raise_for_status r of
                   Inl e \<Rightarrow> (Inl e, st3)
                 | Inr u \<Rightarrow> (Inr JNull, st3))))"

text \<open>\<^verbatim>\<open>'result' in d and d['result']\<close>, tested for truth.\<close>

definition has_result :: "json \<Rightarrow> error + bool" where
  "has_result d =
     (case py_in ''result'' d of
        Inl e \<Rightarrow> Inl e
      | Inr False \<Rightarrow> Inr False
      | Inr True \<Rightarrow> (case getitem d ''result'' of Inl e \<Rightarrow> Inl e | Inr v \<Rightarrow> Inr (truthy v)))"

definition get_zone_id :: "world \<Rightarrow> cloudflare \<Rightarrow> string \<Rightarrow> state \<Rightarrow> json result" where
  "get_zone_id w self name st =
     (let st1 = log_call DEBUG ''%s: Getting zone id ...'' [V (JStr name)] st in
      case call_api w self ''GET'' Zones (Some [(''name'', name)]) None st1 of
        (Inl e, st2) \<Rightarrow> (Inl e, st2)
      | (Inr d, st2) \<Rightarrow>
          (case has_result d of
             Inl e \<Rightarrow> (Inl e, st2)
           | Inr True \<Rightarrow>
               (case getitem d ''result'' of
                  Inl e \<Rightarrow> (Inl e, st2)
                | Inr res \<Rightarrow>
                    (case getitem0 res of
                       Inl e \<Rightarrow> (Inl e, st2)
                     | Inr z \<Rightarrow>
                         (case getitem z ''id'' of
                            Inl e \<Rightarrow> (Inl e, st2)
                          | Inr i \<Rightarrow> (Inr i, st2))))
           | Inr False \<Rightarrow> (Inl (ValueError (name @ '': No such domain'')), st2)))"

text \<open>Falling off the end of the function returns \<^verbatim>\<open>None\<close>, here \<open>JNull\<close>.\<close>

definition get_existing_rec ::
  "world \<Rightarrow> cloudflare \<Rightarrow> string \<Rightarrow> string \<Rightarrow> state \<Rightarrow> json result" where
  "get_existing_rec w self name rec_type st =
     (let st1 = log_call DEBUG ''%s type:%s: Checking for existing record ...''
                  [V (JStr name), V (JStr rec_type)] st in
      case call_api w self ''GET'' (DnsRecords (zone_id self))
             (Some [(''name'', name), (''type'', rec_type)]) None st1 of
        (Inl e, st2) \<Rightarrow> (Inl e, st2)
      | (Inr d, st2) \<Rightarrow>
          (case has_result d of
             Inl e \<Rightarrow> (Inl e, st2)
           | Inr True \<Rightarrow>
               (case getitem d ''result'' of
                  Inl e \<Rightarrow> (Inl e, st2)
                | Inr res \<Rightarrow>
                    (case getitem0 res of
                       Inl e \<Rightarrow> (Inl e, st2)
                     | Inr r \<Rightarrow> (Inr r, st2)))
           | Inr False \<Rightarrow> (Inr JNull, st2)))"

text \<open>A Python set of strings is the list of its elements in the order they were
  added; \<^verbatim>\<open>ips.add(ip)\<close> leaves it alone when the element is there.\<close>

definition set_add :: "string \<Rightarrow> string list \<Rightarrow> string list" where
  "set_add x xs = (if x \<in> set xs then xs else xs @ [x])"

definition get_request :: "string \<Rightarrow> request" where
  "get_request s = \<lparr>http_method = ''GET'', target = Url s, params = None, headers = [], body = None\<rparr>"

text \<open>The loop of \<^verbatim>\<open>get_external_ips\<close>. Only \<^verbatim>\<open>requests.get\<close> can raise
  inside the \<^verbatim>\<open>try\<close>; \<^verbatim>\<open>except Exception\<close> catches whatever it raises.\<close>

fun get_external_ips_loop ::
  "world \<Rightarrow> string list \<Rightarrow> string list \<Rightarrow> state \<Rightarrow> string list \<times> state" where
  "get_external_ips_loop w [] ips st = (ips, st)"
| "get_external_ips_loop w (s # services) ips st =
     (case send w (get_request s) st of
        (Inl err, st1) \<Rightarrow>
          get_external_ips_loop w services ips
            (log_call ERROR ''%s: %s'' [V (JStr s), X err] st1)
      | (Inr r, st1) \<Rightarrow>
          (let ip = strip (text_of r);
               st2 = log_call DEBUG ''%s: %s'' [V (JStr s), V (JStr ip)] st1
           in get_external_ips_loop w services (if ip \<noteq> [] then set_add ip ips else ips) st2))"

definition get_external_ips :: "world \<Rightarrow> string list \<Rightarrow> state \<Rightarrow> string list \<times> state" where
  "get_external_ips w services st =
     get_external_ips_loop w services []
       (log_call DEBUG ''Getting external IP addresses ...'' [] st)"

text \<open>\<^verbatim>\<open>rec['content'] == value and rec['proxied'] == proxy\<close>: the second
  lookup happens only when the first comparison holds.\<close>

definition unchanged :: "json \<Rightarrow> string \<Rightarrow> bool \<Rightarrow> error + bool" where
  "unchanged rec val proxy =
     (case getitem rec ''content'' of
        Inl e \<Rightarrow> Inl e
      | Inr c \<Rightarrow>
          (if eq_str c val then
             (case getitem rec ''proxied'' of
                Inl e \<Rightarrow> Inl e
              | Inr p \<Rightarrow> Inr (eq_bool p proxy))
           else Inr False))"

definition record_data :: "string \<Rightarrow> string \<Rightarrow> string \<Rightarrow> bool \<Rightarrow> (string \<times> json) list" where
  "record_data name rt val proxy =
     [(''name'', JStr name), (''type'', JStr rt), (''content'', JStr val), (''proxied'', JBool proxy)]"

definition set_record ::
  "world \<Rightarrow> cloudflare \<Rightarrow> string \<Rightarrow> string \<Rightarrow> bool \<Rightarrow> state \<Rightarrow> unit result" where
  "set_record w self name val proxy st =
     (let req_path = DnsRecords (zone_id self) in
      case get_record_type w val st of
        (Inl e, st1) \<Rightarrow> (Inl e, st1)
      | (Inr rto, st1) \<Rightarrow>
          (let rejected =
                 (Inr (), log_call ERROR ''Getting record type failed for %s'' [V (JStr val)] st1)
           in case rto of
                None \<Rightarrow> rejected
              | Some rt \<Rightarrow>
                  (if rt = [] then rejected
                   else
                     (let data = record_data name rt val proxy in
                      case get_existing_rec w self name rt st1 of
                        (Inl e, st2) \<Rightarrow> (Inl e, st2)
                      | (Inr rec, st2) \<Rightarrow>
                          (if truthy rec then
                             (case getitem rec ''id'' of
                                Inl e \<Rightarrow> (Inl e, st2)
                              | Inr rec_id \<Rightarrow>
                                  (case unchanged rec val proxy of
                                     Inl e \<Rightarrow> (Inl e, st2)
                                   | Inr True \<Rightarrow>
                                       (Inr (),
                                        log_call DEBUG ''Record exists: %s %s %s proxied:%s id:%s''
                                          [V (JStr name), V (JStr rt), V (JStr val), V (JBool proxy),
                                           V rec_id] st2)
                                   | Inr False \<Rightarrow>
                                       (let data' = data @ [(''id'', rec_id)];
                                            st3 = log_call INFO
                                                    ''Updating record: %s %s %s proxied:%s id:%s ...''
                                                    [V (JStr name), V (JStr rt), V (JStr val),
                                                     V (JBool proxy), V rec_id] st2
                                        in case rec_id of
                                             JStr i \<Rightarrow>
                                               (case call_api w self ''PUT''
                                                       (DnsRecord (zone_id self) i) None
                                                       (Some (JObj data')) st3 of
                                                  (Inl e, st4) \<Rightarrow> (Inl e, st4)
                                                | (Inr d, st4) \<Rightarrow>
                                                    (Inr (),
                                                     log_call INFO
                                                       ''Success: %s %s %s proxied:%s id:%s''
                                                       [V (JStr name), V (JStr rt), V (JStr val),
                                                        V (JBool proxy), V rec_id] st4))
                                           | _ \<Rightarrow> (Inl TypeError, st3))))
                           else
                             (let st3 = log_call INFO ''Adding new record: %s %s %s proxied:%s ...''
                                          [V (JStr name), V (JStr rt), V (JStr val), V (JBool proxy)]
                                          st2
                              in case call_api w self ''POST'' req_path None (Some (JObj data)) st3 of
                                   (Inl e, st4) \<Rightarrow> (Inl e, st4)
                                 | (Inr d, st4) \<Rightarrow>
                                     (Inr (),
                                      log_call INFO ''Success: %s %s %s proxied:%s''
                                        [V (JStr name), V (JStr rt), V (JStr val), V (JBool proxy)]
                                        st4)))))))"

text \<open>
  The constructor. It sets the logger up first: \<^verbatim>\<open>RotatingFileHandler\<close> opens the
  log file at once and raises \<^verbatim>\<open>OSError\<close> when it cannot, and
  \<^verbatim>\<open>log.setLevel(log_level)\<close> raises \<^verbatim>\<open>ValueError\<close> for a string that is not
  the name of a level (the message quotes the name as \<^verbatim>\<open>repr\<close> does, written
  here for a name that needs no escaping). The rest of the setup raises nothing and
  touches no network. \<open>logged\<close> collects the calls made to the logger, whatever the
  level lets through. In Python 3 \<^verbatim>\<open>EnvironmentError\<close> is another name of
  \<^verbatim>\<open>OSError\<close>; the constructor \<open>EnvironmentError\<close> is the exception that the
  credential check raises with its message, \<open>OSError\<close> any other one.
  \<^verbatim>\<open>not email\<close> holds for an unset variable and for an empty one. \<open>zone_id\<close> is
  not an attribute before the last line; \<open>get_zone_id\<close> and \<open>call_api\<close> do not
  read it.
\<close>

text \<open>The names that \<^verbatim>\<open>logging\<close> knows a level by.\<close>

definition level_names :: "string list" where
  "level_names =
     [''CRITICAL'', ''FATAL'', ''ERROR'', ''WARN'', ''WARNING'', ''INFO'', ''DEBUG'', ''NOTSET'']"

definition not_set :: "string option \<Rightarrow> bool" where
  "not_set v = (case v of None \<Rightarrow> True | Some s \<Rightarrow> s = [])"

definition Cloudflare_init :: "world \<Rightarrow> string \<Rightarrow> string \<Rightarrow> state \<Rightarrow> cloudflare result" where
  "Cloudflare_init w name log_level st =
     (if \<not> log_file_opens w then (Inl OSError, st)
      else if log_level \<notin> set level_names then
        (Inl (ValueError (''Unknown level: '' @ [CHR 0x27] @ log_level @ [CHR 0x27])), st)
      else
        (let email = getenv w ''CF_EMAIL'';
             token = getenv w ''CF_TOKEN''
         in if not_set email \<or> not_set token then
              (Inl (EnvironmentError ''CF_EMAIL and CF_TOKEN envvars must be set.''), st)
            else
              (let self = \<lparr>base_url = ''https://api.cloudflare.com/client/v4'',
                           auth_headers = [(''X-Auth-Email'', case_option [] id email),
                                           (''X-Auth-Key'', case_option [] id token)],
                           zone_id = JNull\<rparr>
               in case get_zone_id w self name st of
                    (Inl e, st1) \<Rightarrow> (Inl e, st1)
                  | (Inr z, st1) \<Rightarrow> (Inr (self\<lparr>zone_id := z\<rparr>), st1))))"

subsection \<open>The script\<close>

record args =
  arg_name :: string
  arg_proxy :: bool
  arg_ip_services :: "string list"
  arg_log_level :: string

text \<open>The \<^verbatim>\<open>for\<close> loop of the script: nothing catches what \<open>set_record\<close>
  raises.\<close>

fun set_records ::
  "world \<Rightarrow> cloudflare \<Rightarrow> string \<Rightarrow> bool \<Rightarrow> string list \<Rightarrow> state \<Rightarrow> unit result" where
  "set_records w cf name proxy [] st = (Inr (), st)"
| "set_records w cf name proxy (ip # ips) st =
     (case set_record w cf name ip proxy st of
        (Inl e, st1) \<Rightarrow> (Inl e, st1)
      | (Inr u, st1) \<Rightarrow> set_records w cf name proxy ips st1)"

text \<open>The script once \<open>domain\<close> is known: the constructor, then the loop.\<close>

definition run :: "world \<Rightarrow> args \<Rightarrow> string \<Rightarrow> state \<Rightarrow> unit result" where
  "run w a domain st =
     (case Cloudflare_init w domain (arg_log_level a) st of
        (Inl e, st1) \<Rightarrow> (Inl e, st1)
      | (Inr cf, st1) \<Rightarrow>
          (case get_external_ips w (arg_ip_services a) st1 of
             (ips, st2) \<Rightarrow> set_records w cf (arg_name a) (arg_proxy a) (set_order w ips) st2))"

definition registrable_domain :: "string \<Rightarrow> error + string" where
  "registrable_domain name =
     (if CHR ''.'' \<in> set name then Inr (join ''.'' (last2 (split CHR ''.'' name)))
      else Inl (ValueError (name @ '' is not a valid hostname'')))"

definition main :: "world \<Rightarrow> args \<Rightarrow> state \<Rightarrow> unit result" where
  "main w a st =
     (case registrable_domain (arg_name a) of
        Inr domain \<Rightarrow> run w a domain st
      | Inl e \<Rightarrow> (Inl e, st))"

subsection \<open>The answers of the echo endpoints\<close>

text \<open>The outcomes of the GETs that \<open>get_external_ips\<close> sends to \<open>services\<close>, one
  after the other, when \<open>history\<close> was sent before them.\<close>

fun replies :: "world \<Rightarrow> request list \<Rightarrow> string list \<Rightarrow> (string + response) list" where
  "replies w history [] = []"
| "replies w history (s # services) =
     network w history (get_request s) # replies w (history @ [get_request s]) services"

subsection \<open>Worlds for the examples\<close>

definition example_env :: "string \<Rightarrow> string option" where
  "example_env k =
     (if k = ''CF_EMAIL'' then Some ''me@example.com''
      else if k = ''CF_TOKEN'' then Some ''secret''
      else None)"

definition no_token_env :: "string \<Rightarrow> string option" where
  "no_token_env k = (if k = ''CF_EMAIL'' then Some ''me@example.com'' else None)"

definition json_reply :: "json \<Rightarrow> string + response" where
  "json_reply d = Inr \<lparr>status = 200, text_of = ''(json)'', parsed = Some d\<rparr>"

definition example_record :: "string \<Rightarrow> string \<Rightarrow> bool \<Rightarrow> json" where
  "example_record i c p =
     JObj [(''id'', JStr i), (''name'', JStr ''home.example.com''), (''type'', JStr ''A''),
           (''content'', JStr c), (''proxied'', JBool p)]"

text \<open>
  A network with echo endpoints (two answer with an address, one answers 404 with a
  page, any other times out) and a provider that holds the records \<open>recs\<close> and answers
  500 to everything once \<open>limit\<close> requests have been sent.
\<close>

definition example_network ::
  "nat \<Rightarrow> json list \<Rightarrow> request list \<Rightarrow> request \<Rightarrow> string + response" where
  "example_network limit recs history rq =
     (case target rq of
        Url s \<Rightarrow>
          (if s = ''https://api.ipify.org'' then
             Inr \<lparr>status = 200, text_of = ''192.0.2.1'' @ [CHR 0x0A], parsed = None\<rparr>
           else if s = ''https://api6.ipify.org'' then
             Inr \<lparr>status = 200, text_of = ''2001:db8::1'' @ [CHR 0x0A], parsed = None\<rparr>
           else if s = ''https://example.org/ip'' then
             Inr \<lparr>status = 404, text_of = ''<html>Not Found</html>'' @ [CHR 0x0A], parsed = None\<rparr>
           else Inl ''timed out'')
      | Api b p \<Rightarrow>
          (if limit \<le> length history then
             Inr \<lparr>status = 500, text_of = ''Internal Server Error'', parsed = None\<rparr>
           else
             (case p of
                Zones \<Rightarrow> json_reply (JObj [(''result'', JArr [JObj [(''id'', JStr ''z1'')]])])
              | DnsRecords z \<Rightarrow>
                  (if http_method rq = ''GET'' then json_reply (JObj [(''result'', JArr recs)])
                   else json_reply (JObj [(''result'', JNull)]))
              | DnsRecord z i \<Rightarrow> json_reply (JObj [(''result'', JNull)]))))"

definition example_world ::
  "(string \<Rightarrow> string option) \<Rightarrow> (request list \<Rightarrow> request \<Rightarrow> string + response) \<Rightarrow> world" where
  "example_world env net =
     \<lparr>libc_inet_pton = glibc_inet_pton, getenv = env, network = net, set_order = id,
      log_file_opens = True\<rparr>"

definition example_cf :: cloudflare where
  "example_cf =
     \<lparr>base_url = ''https://api.cloudflare.com/client/v4'',
      auth_headers = [(''X-Auth-Email'', ''me@example.com''), (''X-Auth-Key'', ''secret'')],
      zone_id = JStr ''z1''\<rparr>"

definition st0 :: state where
  "st0 = \<lparr>sent = [], logged = []\<rparr>"

section \<open>Properties\<close>

subsection \<open>What each operation sends and logs\<close>

lemma sent_log_call [simp]: "sent (log_call lv fmt as st) = sent st"
  by (simp add: log_call_def)

lemma logged_log_call [simp]: "logged (log_call lv fmt as st) = logged st @ [(lv, fmt, as)]"
  by (simp add: log_call_def)

lemma sent_send [simp]: "sent (snd (send w rq st)) = sent st @ [rq]"
  by (simp add: send_def split: sum.split)

lemma logged_send [simp]: "logged (snd (send w rq st)) = logged st"
  by (simp add: send_def split: sum.split)

lemma sent_call_api [simp]:
  "sent (snd (call_api w self meth req_path ps data st)) =
     sent st @ [api_request self meth req_path ps data]"
proof -
  let ?st1 = "log_call DEBUG ''API request: %s %s params:%s data:%s ...''
                  [V (JStr meth), T (Api (base_url self) req_path), params_arg ps, data_arg data] st"
  obtain x st2 where s: "send w (api_request self meth req_path ps data) ?st1 = (x, st2)"
    by (cases "send w (api_request self meth req_path ps data) ?st1")
  have "sent st2 = sent st @ [api_request self meth req_path ps data]"
    using sent_send[of w "api_request self meth req_path ps data" ?st1] s by simp
  then show ?thesis
    unfolding call_api_def Let_def s
    by (simp split: sum.split option.split)
qed

lemma sent_get_record_type [simp]: "sent (snd (get_record_type w ip st)) = sent st"
  by (simp add: get_record_type_def Let_def split: sum.split)

lemma snd_get_record_type:
  "snd (get_record_type w ip st) = log_call DEBUG ''%s: Getting record type ...'' [V (JStr ip)] st"
  by (simp add: get_record_type_def Let_def split: sum.split)

lemma get_record_type_Some:
  "fst (get_record_type w ip st) = Inr (Some rt) \<Longrightarrow> rt = ''A'' \<or> rt = ''AAAA''"
  by (auto simp: get_record_type_def Let_def split: sum.splits if_splits)

lemma sent_get_existing_rec [simp]:
  "sent (snd (get_existing_rec w self name rt st)) =
     sent st @ [api_request self ''GET'' (DnsRecords (zone_id self))
                  (Some [(''name'', name), (''type'', rt)]) None]"
proof -
  let ?st1 = "log_call DEBUG ''%s type:%s: Checking for existing record ...''
                  [V (JStr name), V (JStr rt)] st"
  let ?c = "call_api w self ''GET'' (DnsRecords (zone_id self))
              (Some [(''name'', name), (''type'', rt)]) None ?st1"
  obtain x st2 where c: "?c = (x, st2)" by (cases ?c)
  have "sent st2 = sent ?st1 @ [api_request self ''GET'' (DnsRecords (zone_id self))
                                  (Some [(''name'', name), (''type'', rt)]) None]"
    using sent_call_api[of w self "''GET''" "DnsRecords (zone_id self)"
            "Some [(''name'', name), (''type'', rt)]" None ?st1] c by simp
  then show ?thesis
    unfolding get_existing_rec_def Let_def c
    by (simp split: sum.split bool.split)
qed

subsection \<open>Classification\<close>

text \<open>A string without a null character is classified, whatever the parser answers:
  the result is \<^verbatim>\<open>'A'\<close>, \<^verbatim>\<open>'AAAA'\<close> or \<^verbatim>\<open>None\<close>, and nothing is raised.\<close>

lemma get_record_type_total:
  "CHR 0x00 \<notin> set ip \<Longrightarrow>
   fst (get_record_type w ip st) \<in> {Inr (Some ''A''), Inr (Some ''AAAA''), Inr None}"
  by (simp add: get_record_type_def is_ipv4_def is_ipv6_def socket_inet_pton_def Let_def
           split: sum.split option.split)

lemma classify_examples:
  "fst (get_record_type (example_world example_env (example_network 9 [])) ''192.0.2.1'' st0)
     = Inr (Some ''A'')"
  "fst (get_record_type (example_world example_env (example_network 9 [])) ''2001:db8::1'' st0)
     = Inr (Some ''AAAA'')"
  "fst (get_record_type (example_world example_env (example_network 9 [])) ''not-an-ip'' st0)
     = Inr None"
  "fst (get_record_type (example_world example_env (example_network 9 [])) [] st0) = Inr None"
  by code_simp+

lemma get_record_type_pair:
  "get_record_type w ip st =
     (fst (get_record_type w ip st), log_call DEBUG ''%s: Getting record type ...'' [V (JStr ip)] st)"
  using snd_get_record_type[of w ip st] by (cases "get_record_type w ip st") simp

lemma get_record_type_null:
  "CHR 0x00 \<in> set ip \<Longrightarrow>
   get_record_type w ip st =
     (Inl (ValueError ''embedded null character''),
      log_call DEBUG ''%s: Getting record type ...'' [V (JStr ip)] st)"
  by (simp add: get_record_type_def is_ipv4_def socket_inet_pton_def Let_def)

text \<open>
  C4. Classification returns one of \<^verbatim>\<open>'A'\<close>, \<^verbatim>\<open>'AAAA'\<close>, \<^verbatim>\<open>None\<close> for every
  string and never raises. The code does not do that: for a string with an embedded
  null character \<^verbatim>\<open>socket.inet_pton\<close> raises \<^verbatim>\<open>ValueError\<close>, which
  \<^verbatim>\<open>except socket.error\<close> does not catch, so \<open>get_record_type\<close> raises it, in
  every world.
\<close>

theorem get_record_type_embedded_null:
  "fst (get_record_type w (''192.0.2.1'' @ [CHR 0x00]) st)
     = Inl (ValueError ''embedded null character'')"
  by (simp add: get_record_type_null)



subsection \<open>Reconciliation\<close>

text \<open>A candidate that the classifier answers \<^verbatim>\<open>None\<close> for is rejected: an error
  is logged, nothing is sent and nothing is raised.\<close>

lemma set_record_rejected:
  assumes "fst (get_record_type w val st) = Inr None"
  shows "set_record w self name val proxy st =
     (Inr (), log_call ERROR ''Getting record type failed for %s'' [V (JStr val)]
                (log_call DEBUG ''%s: Getting record type ...'' [V (JStr val)] st))"
proof -
  have "get_record_type w val st =
          (Inr None, log_call DEBUG ''%s: Getting record type ...'' [V (JStr val)] st)"
    using get_record_type_pair[of w val st] assms by simp
  then show ?thesis
    by (simp add: set_record_def)
qed

text \<open>Whatever happens, one call of \<open>set_record\<close> sends at most one write.\<close>

lemma set_record_at_most_one_write:
  "\<exists>rqs. sent (snd (set_record w self name val proxy st)) = sent st @ rqs
     \<and> length (filter is_write rqs) \<le> 1"
proof -
  let ?st1 = "log_call DEBUG ''%s: Getting record type ...'' [V (JStr val)] st"
  obtain x where g: "get_record_type w val st = (x, ?st1)"
    using get_record_type_pair[of w val st] by blast
  show ?thesis
  proof (cases x)
    case (Inl e)
    with g show ?thesis by (simp add: set_record_def)
  next
    case (Inr rto)
    show ?thesis
    proof (cases "rto = None \<or> rto = Some []")
      case True
      with g Inr show ?thesis by (auto simp: set_record_def)
    next
      case False
      then obtain rt where rt: "rto = Some rt" "rt \<noteq> []" by (cases rto) auto
      let ?lk = "api_request self ''GET'' (DnsRecords (zone_id self))
                  (Some [(''name'', name), (''type'', rt)]) None"
      obtain y st2 where e: "get_existing_rec w self name rt ?st1 = (y, st2)"
        by (cases "get_existing_rec w self name rt ?st1")
      have s2: "sent st2 = sent st @ [?lk]"
        using sent_get_existing_rec[of w self name rt ?st1] e by simp
      have lk: "\<not> is_write ?lk" by (simp add: is_write_def api_request_def)
      show ?thesis
      proof (cases y)
        case (Inl e')
        with g Inr rt e s2 lk show ?thesis by (simp add: set_record_def)
      next
        case (Inr rec)
        note y = this
        show ?thesis
        proof (cases "truthy rec")
          case False
          let ?st3 = "log_call INFO ''Adding new record: %s %s %s proxied:%s ...''
                        [V (JStr name), V (JStr rt), V (JStr val), V (JBool proxy)] st2"
          let ?c = "call_api w self ''POST'' (DnsRecords (zone_id self)) None
                      (Some (JObj (record_data name rt val proxy))) ?st3"
          obtain z st4 where c: "?c = (z, st4)" by (cases ?c)
          have "sent st4 = sent st @ [?lk, api_request self ''POST'' (DnsRecords (zone_id self)) None
                      (Some (JObj (record_data name rt val proxy)))]"
            using sent_call_api[of w self "''POST''" "DnsRecords (zone_id self)" None
                      "Some (JObj (record_data name rt val proxy))" ?st3] c s2 by simp
          with g \<open>x = Inr rto\<close> rt e y False c lk show ?thesis
            by (simp add: set_record_def Let_def split: sum.split)
        next
          case True
          show ?thesis
          proof (cases "getitem rec ''id''")
            case (Inl e')
            with g \<open>x = Inr rto\<close> rt e y True s2 lk show ?thesis
              by (simp add: set_record_def)
          next
            case (Inr rec_id)
            note i = this
            show ?thesis
            proof (cases "unchanged rec val proxy")
              case (Inl e')
              with g \<open>x = Inr rto\<close> rt e y True i s2 lk show ?thesis
                by (simp add: set_record_def)
            next
              case (Inr same)
              note u = this
              show ?thesis
              proof (cases same)
                case True
                with g \<open>x = Inr rto\<close> rt e y \<open>truthy rec\<close> i u s2 lk show ?thesis
                  by (simp add: set_record_def)
              next
                case False
                note f = this
                let ?st3 = "log_call INFO ''Updating record: %s %s %s proxied:%s id:%s ...''
                              [V (JStr name), V (JStr rt), V (JStr val), V (JBool proxy), V rec_id] st2"
                show ?thesis
                proof (cases "\<exists>k. rec_id = JStr k")
                  case False
                  with g \<open>x = Inr rto\<close> rt e y \<open>truthy rec\<close> i u f s2 lk show ?thesis
                    by (cases rec_id) (simp_all add: set_record_def Let_def)
                next
                  case True
                  then obtain k where k: "rec_id = JStr k" by blast
                  let ?c = "call_api w self ''PUT'' (DnsRecord (zone_id self) k) None
                      (Some (JObj (record_data name rt val proxy @ [(''id'', rec_id)]))) ?st3"
                  obtain z st4 where c: "?c = (z, st4)" by (cases ?c)
                  have "sent st4 = sent st @ [?lk, api_request self ''PUT''
                      (DnsRecord (zone_id self) k) None
                      (Some (JObj (record_data name rt val proxy @ [(''id'', rec_id)])))]"
                    using sent_call_api[of w self "''PUT''" "DnsRecord (zone_id self) k" None
                      "Some (JObj (record_data name rt val proxy @ [(''id'', rec_id)]))" ?st3] c s2
                    by simp
                  with g \<open>x = Inr rto\<close> rt e y \<open>truthy rec\<close> i u f k c lk show ?thesis
                    by (simp add: set_record_def Let_def split: sum.split)
                qed
              qed
            qed
          qed
        qed
      qed
    qed
  qed
qed

text \<open>
  C6. A candidate that is neither valid IPv4 nor valid IPv6 is rejected with an error
  logged and no provider call, and every call of \<open>set_record\<close> makes at most one
  write. The code does not do the first for a candidate with an embedded null
  character: the \<^verbatim>\<open>ValueError\<close> of \<^verbatim>\<open>socket.inet_pton\<close> leaves
  \<open>set_record\<close>, and the only call to the logger is the debug line of the classifier.
\<close>

theorem set_record_embedded_null:
  "set_record w self name (''192.0.2.1'' @ [CHR 0x00]) proxy st =
     (Inl (ValueError ''embedded null character''),
      log_call DEBUG ''%s: Getting record type ...'' [V (JStr (''192.0.2.1'' @ [CHR 0x00]))] st)"
  by (simp add: set_record_def get_record_type_null)

text \<open>
  C1. When the candidate is classified and the lookup finds a record whose content
  equals the candidate and whose proxied flag equals the given one, the lookup (a GET)
  is the only request that \<open>set_record\<close> sends: there is no write. When the record
  has an identifier, as every record of the provider has, \<open>set_record\<close> returns
  normally and its last log line is the debug line \<^verbatim>\<open>Record exists\<close>.
\<close>

theorem set_record_noop:
  assumes cls: "fst (get_record_type w val st) = Inr (Some rt)"
    and found: "fst (get_existing_rec w self name rt (snd (get_record_type w val st)))
                  = Inr (JObj kvs)"
    and content: "map_of kvs ''content'' = Some c" "eq_str c val"
    and proxied: "map_of kvs ''proxied'' = Some p" "eq_bool p proxy"
  shows "sent (snd (set_record w self name val proxy st)) =
           sent st @ [api_request self ''GET'' (DnsRecords (zone_id self))
                        (Some [(''name'', name), (''type'', rt)]) None]
       \<and> filter is_write (sent (snd (set_record w self name val proxy st)))
           = filter is_write (sent st)
       \<and> (\<forall>rec_id. map_of kvs ''id'' = Some rec_id \<longrightarrow>
            fst (set_record w self name val proxy st) = Inr ()
            \<and> last (logged (snd (set_record w self name val proxy st))) =
                (DEBUG, ''Record exists: %s %s %s proxied:%s id:%s'',
                 [V (JStr name), V (JStr rt), V (JStr val), V (JBool proxy), V rec_id]))"
proof -
  let ?st1 = "log_call DEBUG ''%s: Getting record type ...'' [V (JStr val)] st"
  let ?lk = "api_request self ''GET'' (DnsRecords (zone_id self))
               (Some [(''name'', name), (''type'', rt)]) None"
  have g: "get_record_type w val st = (Inr (Some rt), ?st1)"
    using get_record_type_pair[of w val st] cls by simp
  have rt: "rt \<noteq> []" using get_record_type_Some[OF cls] by auto
  obtain st2 where e: "get_existing_rec w self name rt ?st1 = (Inr (JObj kvs), st2)"
    using found g by (cases "get_existing_rec w self name rt ?st1") simp
  have s2: "sent st2 = sent st @ [?lk]"
    using sent_get_existing_rec[of w self name rt ?st1] e by simp
  have t: "truthy (JObj kvs)" using content by auto
  have u: "unchanged (JObj kvs) val proxy = Inr True"
    using content proxied by (simp add: unchanged_def)
  have lk: "\<not> is_write ?lk"
    by (simp add: is_write_def api_request_def)
  have noop: "set_record w self name val proxy st =
     (Inr (), log_call DEBUG ''Record exists: %s %s %s proxied:%s id:%s''
                [V (JStr name), V (JStr rt), V (JStr val), V (JBool proxy), V rec_id] st2)"
    if "map_of kvs ''id'' = Some rec_id" for rec_id
    unfolding set_record_def Let_def g using rt e t u that by simp
  have sent': "sent (snd (set_record w self name val proxy st)) = sent st @ [?lk]"
  proof (cases "map_of kvs ''id''")
    case None
    then have "set_record w self name val proxy st = (Inl KeyError, st2)"
      unfolding set_record_def Let_def g using rt e t by simp
    with s2 show ?thesis by simp
  next
    case (Some rec_id)
    from noop[OF this] s2 show ?thesis by simp
  qed
  show ?thesis
  proof (intro conjI allI impI)
    show "sent (snd (set_record w self name val proxy st)) = sent st @ [?lk]"
      by (rule sent')
    show "filter is_write (sent (snd (set_record w self name val proxy st)))
            = filter is_write (sent st)"
      using sent' lk by simp
  next
    fix rec_id assume i: "map_of kvs ''id'' = Some rec_id"
    show "fst (set_record w self name val proxy st) = Inr ()"
      using noop[OF i] by simp
    show "last (logged (snd (set_record w self name val proxy st))) =
            (DEBUG, ''Record exists: %s %s %s proxied:%s id:%s'',
             [V (JStr name), V (JStr rt), V (JStr val), V (JBool proxy), V rec_id])"
      using noop[OF i] by simp
  qed
qed

theorem set_record_noop_witness:
  "fst (set_record (example_world example_env
                      (example_network 9 [example_record ''r1'' ''192.0.2.1'' False]))
          example_cf ''home.example.com'' ''192.0.2.1'' False st0) = Inr ()
   \<and> sent (snd (set_record (example_world example_env
                      (example_network 9 [example_record ''r1'' ''192.0.2.1'' False]))
          example_cf ''home.example.com'' ''192.0.2.1'' False st0)) =
       [api_request example_cf ''GET'' (DnsRecords (JStr ''z1''))
          (Some [(''name'', ''home.example.com''), (''type'', ''A'')]) None]
   \<and> filter is_write (sent (snd (set_record (example_world example_env
                      (example_network 9 [example_record ''r1'' ''192.0.2.1'' False]))
          example_cf ''home.example.com'' ''192.0.2.1'' False st0))) = []"
proof -
  let ?w = "example_world example_env
              (example_network 9 [example_record ''r1'' ''192.0.2.1'' False])"
  let ?kvs = "[(''id'', JStr ''r1''), (''name'', JStr ''home.example.com''),
               (''type'', JStr ''A''), (''content'', JStr ''192.0.2.1''),
               (''proxied'', JBool False)]"
  have cls: "fst (get_record_type ?w ''192.0.2.1'' st0) = Inr (Some ''A'')"
    by code_simp
  have found: "fst (get_existing_rec ?w example_cf ''home.example.com'' ''A''
                      (snd (get_record_type ?w ''192.0.2.1'' st0))) = Inr (JObj ?kvs)"
    by code_simp
  have content: "map_of ?kvs ''content'' = Some (JStr ''192.0.2.1'')"
    "eq_str (JStr ''192.0.2.1'') ''192.0.2.1''" by simp_all
  have proxied: "map_of ?kvs ''proxied'' = Some (JBool False)" "eq_bool (JBool False) False"
    by simp_all
  show ?thesis
    using set_record_noop[OF cls found content proxied]
    by (simp add: st0_def example_cf_def is_write_def api_request_def)
qed



subsection \<open>Looking a record up\<close>

lemma fst_send:
  "fst (send w rq st) =
     (case network w (sent st) rq of Inl msg \<Rightarrow> Inl (RequestException msg) | Inr r \<Rightarrow> Inr r)"
  by (simp add: send_def split: sum.split)

lemma fst_call_api_ok:
  assumes "network w (sent st) (api_request self meth req_path ps data) = Inr r"
    and "ok r" and "parsed r = Some d"
  shows "fst (call_api w self meth req_path ps data st) = Inr d"
proof -
  let ?st1 = "log_call DEBUG ''API request: %s %s params:%s data:%s ...''
                  [V (JStr meth), T (Api (base_url self) req_path), params_arg ps, data_arg data] st"
  obtain st2 where "send w (api_request self meth req_path ps data) ?st1 = (Inr r, st2)"
    using fst_send[of w "api_request self meth req_path ps data" ?st1] assms(1)
    by (cases "send w (api_request self meth req_path ps data) ?st1") simp
  then show ?thesis
    unfolding call_api_def Let_def using assms(2,3) by simp
qed

lemma has_result_obj:
  "has_result (JObj kvs) =
     Inr (case map_of kvs ''result'' of None \<Rightarrow> False | Some v \<Rightarrow> truthy v)"
proof (cases "map_of kvs ''result''")
  case None
  then have "''result'' \<notin> fst ` set kvs" by (simp add: map_of_eq_None_iff)
  with None show ?thesis by (simp add: has_result_def)
next
  case (Some v)
  then have "''result'' \<in> fst ` set kvs" by (metis map_of_eq_None_iff option.distinct(1))
  with Some show ?thesis by (simp add: has_result_def)
qed

text \<open>
  C8. When the provider answers the lookup with success and a JSON object:
  if its \<^verbatim>\<open>result\<close> is a non-empty array, \<open>get_existing_rec\<close> returns the first
  element of the array; if \<^verbatim>\<open>result\<close> is missing, null or an empty array, it
  returns \<^verbatim>\<open>None\<close> and raises nothing.
\<close>

theorem get_existing_rec_first:
  assumes reply: "network w (sent st)
                    (api_request self ''GET'' (DnsRecords (zone_id self))
                       (Some [(''name'', name), (''type'', rec_type)]) None) = Inr r"
    and "ok r" and "parsed r = Some (JObj kvs)"
  shows "(\<forall>x xs. map_of kvs ''result'' = Some (JArr (x # xs)) \<longrightarrow>
            fst (get_existing_rec w self name rec_type st) = Inr x)
       \<and> (map_of kvs ''result'' = None \<or> map_of kvs ''result'' = Some JNull
            \<or> map_of kvs ''result'' = Some (JArr []) \<longrightarrow>
            fst (get_existing_rec w self name rec_type st) = Inr JNull)"
proof -
  let ?st1 = "log_call DEBUG ''%s type:%s: Checking for existing record ...''
                  [V (JStr name), V (JStr rec_type)] st"
  let ?c = "call_api w self ''GET'' (DnsRecords (zone_id self))
              (Some [(''name'', name), (''type'', rec_type)]) None ?st1"
  have "fst ?c = Inr (JObj kvs)"
    using fst_call_api_ok[of w ?st1 self "''GET''" "DnsRecords (zone_id self)"
            "Some [(''name'', name), (''type'', rec_type)]" None r "JObj kvs"] assms by simp
  then obtain st2 where c: "?c = (Inr (JObj kvs), st2)" by (cases ?c) simp
  show ?thesis
    unfolding get_existing_rec_def Let_def c
    by (auto simp: has_result_obj)
qed

theorem get_existing_rec_first_witness:
  "fst (get_existing_rec
          (example_world example_env
             (example_network 9 [example_record ''r1'' ''192.0.2.1'' False,
                                 example_record ''r2'' ''192.0.2.2'' False]))
          example_cf ''home.example.com'' ''A'' st0)
     = Inr (example_record ''r1'' ''192.0.2.1'' False)
   \<and> fst (get_existing_rec (example_world example_env (example_network 9 []))
            example_cf ''home.example.com'' ''A'' st0) = Inr JNull"
proof -
  let ?rq = "api_request example_cf ''GET'' (DnsRecords (zone_id example_cf))
               (Some [(''name'', ''home.example.com''), (''type'', ''A'')]) None"
  let ?two = "[example_record ''r1'' ''192.0.2.1'' False, example_record ''r2'' ''192.0.2.2'' False]"
  let ?r = "\<lambda>recs. \<lparr>status = 200, text_of = ''(json)'',
                      parsed = Some (JObj [(''result'', JArr recs)])\<rparr>"
  have n2: "network (example_world example_env (example_network 9 ?two)) (sent st0) ?rq = Inr (?r ?two)"
    by code_simp
  have n0: "network (example_world example_env (example_network 9 [])) (sent st0) ?rq = Inr (?r [])"
    by code_simp
  have ok: "ok (?r recs)" for recs by (simp add: ok_def raise_for_status_def)
  have p: "parsed (?r recs) = Some (JObj [(''result'', JArr recs)])" for recs by simp
  show ?thesis
    using get_existing_rec_first[OF n2 ok p] get_existing_rec_first[OF n0 ok p]
    by simp
qed

subsection \<open>The constructor\<close>

lemma sent_get_zone_id [simp]:
  "sent (snd (get_zone_id w self name st)) =
     sent st @ [api_request self ''GET'' Zones (Some [(''name'', name)]) None]"
proof -
  let ?st1 = "log_call DEBUG ''%s: Getting zone id ...'' [V (JStr name)] st"
  let ?c = "call_api w self ''GET'' Zones (Some [(''name'', name)]) None ?st1"
  obtain x st2 where c: "?c = (x, st2)" by (cases ?c)
  have "sent st2 = sent ?st1 @ [api_request self ''GET'' Zones (Some [(''name'', name)]) None]"
    using sent_call_api[of w self "''GET''" Zones "Some [(''name'', name)]" None ?st1] c by simp
  then show ?thesis
    unfolding get_zone_id_def Let_def c
    by (simp split: sum.split bool.split)
qed

lemma Cloudflare_init_Inr_sent:
  assumes "Cloudflare_init w name log_level st = (Inr cf, st1)"
  shows "sent st1 = sent st @ [api_request cf ''GET'' Zones (Some [(''name'', name)]) None]"
proof -
  let ?self = "\<lparr>base_url = ''https://api.cloudflare.com/client/v4'',
                 auth_headers = [(''X-Auth-Email'', case_option [] id (getenv w ''CF_EMAIL'')),
                                 (''X-Auth-Key'', case_option [] id (getenv w ''CF_TOKEN''))],
                 zone_id = JNull\<rparr>"
  obtain x st' where z: "get_zone_id w ?self name st = (x, st')"
    by (cases "get_zone_id w ?self name st")
  have s: "sent st' = sent st @ [api_request ?self ''GET'' Zones (Some [(''name'', name)]) None]"
    using sent_get_zone_id[of w ?self name st] z by simp
  from assms z obtain zid where "cf = ?self\<lparr>zone_id := zid\<rparr>" "st1 = st'"
    by (auto simp: Cloudflare_init_def Let_def split: if_splits sum.splits)
  with s show ?thesis by (simp add: api_request_def)
qed

text \<open>
  C9, as the code has it. The constructor sets the logger up before it looks at the
  credentials: when the log file cannot be opened it fails with \<^verbatim>\<open>OSError\<close>, when
  \<open>log_level\<close> is not the name of a level it fails with \<^verbatim>\<open>ValueError\<close>. When the
  logger is set up and \<^verbatim>\<open>CF_EMAIL\<close> or \<^verbatim>\<open>CF_TOKEN\<close> is unset or empty, it fails
  with \<^verbatim>\<open>EnvironmentError\<close>. In these three cases the state is as before: nothing
  was sent. When the logger is set up and both variables are set and not empty, the
  constructor sends exactly one request, the zone lookup, with the two credentials as
  its headers.
\<close>

theorem Cloudflare_init_credentials:
  "(\<not> log_file_opens w \<longrightarrow> Cloudflare_init w name log_level st = (Inl OSError, st))
   \<and> (log_file_opens w \<and> log_level \<notin> set level_names \<longrightarrow>
        Cloudflare_init w name log_level st =
          (Inl (ValueError (''Unknown level: '' @ [CHR 0x27] @ log_level @ [CHR 0x27])), st))
   \<and> (log_file_opens w \<and> log_level \<in> set level_names
        \<and> (getenv w ''CF_EMAIL'' = None \<or> getenv w ''CF_EMAIL'' = Some []
             \<or> getenv w ''CF_TOKEN'' = None \<or> getenv w ''CF_TOKEN'' = Some []) \<longrightarrow>
        Cloudflare_init w name log_level st =
          (Inl (EnvironmentError ''CF_EMAIL and CF_TOKEN envvars must be set.''), st))
   \<and> (\<forall>email token.
        log_file_opens w \<and> log_level \<in> set level_names
        \<and> getenv w ''CF_EMAIL'' = Some email \<and> email \<noteq> []
        \<and> getenv w ''CF_TOKEN'' = Some token \<and> token \<noteq> [] \<longrightarrow>
        sent (snd (Cloudflare_init w name log_level st)) =
          sent st @
          [\<lparr>http_method = ''GET'', target = Api ''https://api.cloudflare.com/client/v4'' Zones,
            params = Some [(''name'', name)],
            headers = [(''X-Auth-Email'', email), (''X-Auth-Key'', token)], body = None\<rparr>])"
proof (intro conjI impI allI)
  assume "\<not> log_file_opens w"
  then show "Cloudflare_init w name log_level st = (Inl OSError, st)"
    by (simp add: Cloudflare_init_def)
next
  assume "log_file_opens w \<and> log_level \<notin> set level_names"
  then show "Cloudflare_init w name log_level st =
          (Inl (ValueError (''Unknown level: '' @ [CHR 0x27] @ log_level @ [CHR 0x27])), st)"
    by (simp add: Cloudflare_init_def)
next
  assume a: "log_file_opens w \<and> log_level \<in> set level_names
        \<and> (getenv w ''CF_EMAIL'' = None \<or> getenv w ''CF_EMAIL'' = Some []
             \<or> getenv w ''CF_TOKEN'' = None \<or> getenv w ''CF_TOKEN'' = Some [])"
  then have "not_set (getenv w ''CF_EMAIL'') \<or> not_set (getenv w ''CF_TOKEN'')"
    by (auto simp: not_set_def)
  with a show "Cloudflare_init w name log_level st =
        (Inl (EnvironmentError ''CF_EMAIL and CF_TOKEN envvars must be set.''), st)"
    by (auto simp: Cloudflare_init_def Let_def)
next
  fix email token
  assume a: "log_file_opens w \<and> log_level \<in> set level_names
        \<and> getenv w ''CF_EMAIL'' = Some email \<and> email \<noteq> []
        \<and> getenv w ''CF_TOKEN'' = Some token \<and> token \<noteq> []"
  let ?self = "\<lparr>base_url = ''https://api.cloudflare.com/client/v4'',
                 auth_headers = [(''X-Auth-Email'', email), (''X-Auth-Key'', token)],
                 zone_id = JNull\<rparr>"
  obtain x st1 where z: "get_zone_id w ?self name st = (x, st1)"
    by (cases "get_zone_id w ?self name st")
  have "sent st1 = sent st @ [api_request ?self ''GET'' Zones (Some [(''name'', name)]) None]"
    using sent_get_zone_id[of w ?self name st] z by simp
  then show "sent (snd (Cloudflare_init w name log_level st)) =
          sent st @
          [\<lparr>http_method = ''GET'', target = Api ''https://api.cloudflare.com/client/v4'' Zones,
            params = Some [(''name'', name)],
            headers = [(''X-Auth-Email'', email), (''X-Auth-Key'', token)], body = None\<rparr>]"
    using a z by (simp add: Cloudflare_init_def Let_def not_set_def api_request_def split: sum.split)
qed

theorem Cloudflare_init_credentials_witness:
  "Cloudflare_init (example_world no_token_env (example_network 9 [])) ''example.com'' ''INFO'' st0
     = (Inl (EnvironmentError ''CF_EMAIL and CF_TOKEN envvars must be set.''), st0)
   \<and> sent (snd (Cloudflare_init (example_world example_env (example_network 9 []))
                  ''example.com'' ''INFO'' st0)) =
       [\<lparr>http_method = ''GET'', target = Api ''https://api.cloudflare.com/client/v4'' Zones,
         params = Some [(''name'', ''example.com'')],
         headers = [(''X-Auth-Email'', ''me@example.com''), (''X-Auth-Key'', ''secret'')],
         body = None\<rparr>]
   \<and> Cloudflare_init (example_world example_env (example_network 9 [])) ''example.com'' ''bogus'' st0
     = (Inl (ValueError (''Unknown level: '' @ [CHR 0x27] @ ''bogus'' @ [CHR 0x27])), st0)
   \<and> Cloudflare_init
       ((example_world example_env (example_network 9 []))\<lparr>log_file_opens := False\<rparr>)
       ''example.com'' ''INFO'' st0 = (Inl OSError, st0)"
proof -
  have unset: "getenv (example_world no_token_env (example_network 9 [])) ''CF_TOKEN'' = None"
    by (simp add: example_world_def no_token_env_def)
  have set: "getenv (example_world example_env (example_network 9 [])) ''CF_EMAIL''
               = Some ''me@example.com''"
    "getenv (example_world example_env (example_network 9 [])) ''CF_TOKEN'' = Some ''secret''"
    by (simp_all add: example_world_def example_env_def)
  have logger: "log_file_opens (example_world env net)" for env net
    by (simp add: example_world_def)
  have nolog: "\<not> log_file_opens ((example_world env net)\<lparr>log_file_opens := False\<rparr>)" for env net
    by simp
  have level: "''INFO'' \<in> set level_names" "''bogus'' \<notin> set level_names"
    by (simp_all add: level_names_def)
  show ?thesis
    using Cloudflare_init_credentials[of "example_world no_token_env (example_network 9 [])"
            "''example.com''" "''INFO''" st0]
          Cloudflare_init_credentials[of "example_world example_env (example_network 9 [])"
            "''example.com''" "''INFO''" st0]
          Cloudflare_init_credentials[of "example_world example_env (example_network 9 [])"
            "''example.com''" "''bogus''" st0]
          Cloudflare_init_credentials[of
            "(example_world example_env (example_network 9 []))\<lparr>log_file_opens := False\<rparr>"
            "''example.com''" "''INFO''" st0]
          unset set logger nolog level
    by (simp add: st0_def)
qed

text \<open>
  The claim C9 itself, that a missing credential makes every construction fail with
  \<^verbatim>\<open>EnvironmentError\<close>, fails: with \<^verbatim>\<open>CF_TOKEN\<close> unset and a level name that
  \<^verbatim>\<open>logging\<close> does not know, the constructor raises \<^verbatim>\<open>ValueError\<close>.
\<close>

theorem Cloudflare_init_unknown_level_counterexample:
  "getenv (example_world no_token_env (example_network 9 [])) ''CF_TOKEN'' = None
   \<and> Cloudflare_init (example_world no_token_env (example_network 9 [])) ''example.com''
        ''bogus'' st0
      = (Inl (ValueError (''Unknown level: '' @ [CHR 0x27] @ ''bogus'' @ [CHR 0x27])), st0)
   \<and> fst (Cloudflare_init (example_world no_token_env (example_network 9 [])) ''example.com''
        ''bogus'' st0)
      \<noteq> Inl (EnvironmentError ''CF_EMAIL and CF_TOKEN envvars must be set.'')"
  by (simp add: Cloudflare_init_def example_world_def no_token_env_def level_names_def)

subsection \<open>The registrable domain\<close>

lemma split_not_Nil [simp]: "split c s \<noteq> []"
  by (induction s) (auto simp: Let_def)

lemma split_no_sep: "p \<in> set (split c s) \<Longrightarrow> c \<notin> set p"
proof (induction s arbitrary: p)
  case Nil
  then show ?case by simp
next
  case (Cons x xs)
  show ?case
  proof (cases "x = c")
    case True
    with Cons show ?thesis by auto
  next
    case False
    obtain q qs where q: "split c xs = q # qs" by (cases "split c xs") auto
    with Cons False show ?thesis by (auto simp: Let_def)
  qed
qed

lemma join_Cons: "ps \<noteq> [] \<Longrightarrow> join sep (p # ps) = p @ sep @ join sep ps"
  by (cases ps) auto

lemma join_split: "join [c] (split c s) = s"
proof (induction s)
  case Nil
  then show ?case by simp
next
  case (Cons x xs)
  obtain q qs where q: "split c xs = q # qs" by (cases "split c xs") auto
  show ?case
  proof (cases "x = c")
    case True
    with Cons show ?thesis by (simp add: join_Cons)
  next
    case False
    with Cons q show ?thesis by (cases qs) (auto simp: Let_def)
  qed
qed

lemma length_split: "c \<in> set s \<Longrightarrow> 2 \<le> length (split c s)"
proof (induction s)
  case Nil
  then show ?case by simp
next
  case (Cons x xs)
  have "1 \<le> length (split c xs)" by (cases "split c xs") auto
  with Cons show ?case
    by (cases "x = c") (auto simp: Let_def)
qed

lemma join_append:
  "ps \<noteq> [] \<Longrightarrow> qs \<noteq> [] \<Longrightarrow> join sep (ps @ qs) = join sep ps @ sep @ join sep qs"
proof (induction ps)
  case Nil
  then show ?case by simp
next
  case (Cons p ps)
  show ?case
  proof (cases "ps = []")
    case True
    with Cons show ?thesis by (simp add: join_Cons)
  next
    case False
    with Cons show ?thesis by (simp add: join_Cons)
  qed
qed

lemma last_two: "2 \<le> length xs \<Longrightarrow> \<exists>pre a b. xs = pre @ [a, b] \<and> last2 xs = [a, b]"
proof -
  assume l: "2 \<le> length xs"
  let ?pre = "take (length xs - 2) xs"
  have "length (last2 xs) = 2" using l by (simp add: last2_def)
  then obtain a b where ab: "last2 xs = [a, b]"
    by (cases "last2 xs"; cases "tl (last2 xs)"; cases "tl (tl (last2 xs))") auto
  have "xs = ?pre @ last2 xs" by (simp add: last2_def)
  with ab show ?thesis by metis
qed

lemma registrable_domain_labels:
  assumes "CHR ''.'' \<in> set name"
  shows "\<exists>p l1 l2. name = p @ l1 @ ''.'' @ l2 \<and> (p = [] \<or> last p = CHR ''.'')
           \<and> CHR ''.'' \<notin> set l1 \<and> CHR ''.'' \<notin> set l2
           \<and> registrable_domain name = Inr (l1 @ ''.'' @ l2)"
proof -
  obtain pre l1 l2 where s: "split CHR ''.'' name = pre @ [l1, l2]"
      and l: "last2 (split CHR ''.'' name) = [l1, l2]"
    using last_two[OF length_split[OF assms]] by blast
  have d: "registrable_domain name = Inr (l1 @ ''.'' @ l2)"
    using assms l by (simp add: registrable_domain_def)
  have n1: "CHR ''.'' \<notin> set l1" and n2: "CHR ''.'' \<notin> set l2"
    using split_no_sep[of _ "CHR ''.''" name] s by auto
  have j: "name = join ''.'' (pre @ [l1, l2])"
    using join_split[of "CHR ''.''" name] s by simp
  show ?thesis
  proof (cases "pre = []")
    case True
    with j have "name = [] @ l1 @ ''.'' @ l2" by simp
    with d n1 n2 show ?thesis by blast
  next
    case False
    then have "name = (join ''.'' pre @ ''.'') @ l1 @ ''.'' @ l2"
      using j by (simp add: join_append)
    moreover have "last (join ''.'' pre @ ''.'') = CHR ''.''" by simp
    ultimately show ?thesis using d n1 n2 by blast
  qed
qed

subsection \<open>Resolving the external addresses\<close>

lemma length_replies [simp]: "length (replies w h services) = length services"
  by (induction services arbitrary: h) auto

lemma loop_sent:
  "sent (snd (get_external_ips_loop w services ips st)) = sent st @ map get_request services"
  by (induction services arbitrary: ips st)
     (auto simp: send_def Let_def split: sum.split)

lemma loop_logged_mono:
  "set (logged st) \<subseteq> set (logged (snd (get_external_ips_loop w services ips st)))"
proof (induction services arbitrary: ips st)
  case Nil
  then show ?case by simp
next
  case (Cons s services)
  show ?case
  proof (cases "network w (sent st) (get_request s)")
    case (Inl msg)
    let ?st' = "log_call ERROR ''%s: %s'' [V (JStr s), X (RequestException msg)]
                  (st\<lparr>sent := sent st @ [get_request s]\<rparr>)"
    have "set (logged st) \<subseteq> set (logged ?st')" by auto
    also have "\<dots> \<subseteq> set (logged (snd (get_external_ips_loop w services ips ?st')))"
      by (rule Cons.IH)
    finally show ?thesis using Inl by (simp add: send_def)
  next
    case (Inr r)
    let ?ip = "strip (text_of r)"
    let ?st' = "log_call DEBUG ''%s: %s'' [V (JStr s), V (JStr ?ip)]
                  (st\<lparr>sent := sent st @ [get_request s]\<rparr>)"
    let ?ips' = "if ?ip \<noteq> [] then set_add ?ip ips else ips"
    have "set (logged st) \<subseteq> set (logged ?st')" by auto
    also have "\<dots> \<subseteq> set (logged (snd (get_external_ips_loop w services ?ips' ?st')))"
      by (rule Cons.IH)
    finally show ?thesis using Inr by (simp add: send_def Let_def)
  qed
qed

lemma loop_set:
  "set (fst (get_external_ips_loop w services ips st)) =
     set ips \<union> {strip (text_of r) | r. Inr r \<in> set (replies w (sent st) services)
                                        \<and> strip (text_of r) \<noteq> []}"
proof (induction services arbitrary: ips st)
  case Nil
  then show ?case by simp
next
  case (Cons s services)
  show ?case
  proof (cases "network w (sent st) (get_request s)")
    case (Inl msg)
    then show ?thesis
      by (simp add: send_def Cons.IH)
  next
    case (Inr r)
    then show ?thesis
      by (auto simp: send_def Let_def Cons.IH set_add_def)
  qed
qed

lemma loop_distinct:
  "distinct ips \<Longrightarrow> distinct (fst (get_external_ips_loop w services ips st))"
proof (induction services arbitrary: ips st)
  case Nil
  then show ?case by simp
next
  case (Cons s services)
  show ?case
  proof (cases "network w (sent st) (get_request s)")
    case (Inl msg)
    then show ?thesis using Cons by (simp add: send_def)
  next
    case (Inr r)
    have "distinct (if strip (text_of r) \<noteq> [] then set_add (strip (text_of r)) ips else ips)"
      using Cons.prems by (simp add: set_add_def)
    then show ?thesis using Inr Cons.IH by (simp add: send_def Let_def)
  qed
qed

lemma loop_error_logged:
  "i < length services \<Longrightarrow> replies w (sent st) services ! i = Inl msg \<Longrightarrow>
   (ERROR, ''%s: %s'', [V (JStr (services ! i)), X (RequestException msg)])
     \<in> set (logged (snd (get_external_ips_loop w services ips st)))"
proof (induction services arbitrary: i ips st)
  case Nil
  then show ?case by simp
next
  case (Cons s services)
  show ?case
  proof (cases i)
    case 0
    with Cons.prems have n: "network w (sent st) (get_request s) = Inl msg" by simp
    let ?st' = "log_call ERROR ''%s: %s'' [V (JStr s), X (RequestException msg)]
                  (st\<lparr>sent := sent st @ [get_request s]\<rparr>)"
    have "(ERROR, ''%s: %s'', [V (JStr s), X (RequestException msg)]) \<in> set (logged ?st')"
      by simp
    then have "(ERROR, ''%s: %s'', [V (JStr s), X (RequestException msg)])
                 \<in> set (logged (snd (get_external_ips_loop w services ips ?st')))"
      using loop_logged_mono[of ?st' w services ips] by blast
    with 0 n show ?thesis by (simp add: send_def)
  next
    case (Suc j)
    with Cons.prems have j: "j < length services"
      and r: "replies w (sent st @ [get_request s]) services ! j = Inl msg" by simp_all
    show ?thesis
    proof (cases "network w (sent st) (get_request s)")
      case (Inl m)
      let ?st' = "log_call ERROR ''%s: %s'' [V (JStr s), X (RequestException m)]
                    (st\<lparr>sent := sent st @ [get_request s]\<rparr>)"
      have "sent ?st' = sent st @ [get_request s]" by simp
      with Cons.IH[of j ?st' ips] j r Suc Inl show ?thesis by (simp add: send_def)
    next
      case (Inr rr)
      let ?ip = "strip (text_of rr)"
      let ?st' = "log_call DEBUG ''%s: %s'' [V (JStr s), V (JStr ?ip)]
                    (st\<lparr>sent := sent st @ [get_request s]\<rparr>)"
      let ?ips' = "if ?ip \<noteq> [] then set_add ?ip ips else ips"
      have "sent ?st' = sent st @ [get_request s]" by simp
      with Cons.IH[of j ?st' ?ips'] j r Suc Inr show ?thesis by (simp add: send_def Let_def)
    qed
  qed
qed

lemma loop_errors:
  "[e \<leftarrow> logged (snd (get_external_ips_loop w services ips st)). fst e = ERROR] =
     [e \<leftarrow> logged st. fst e = ERROR] @
     [(ERROR, ''%s: %s'', [V (JStr s), X (RequestException msg)]).
        (s, Inl msg) \<leftarrow> zip services (replies w (sent st) services)]"
proof (induction services arbitrary: ips st)
  case Nil
  then show ?case by simp
next
  case (Cons s services)
  show ?case
  proof (cases "network w (sent st) (get_request s)")
    case (Inl msg)
    then show ?thesis
      by (simp add: send_def Cons.IH)
  next
    case (Inr r)
    then show ?thesis
      by (simp add: send_def Let_def Cons.IH)
  qed
qed

lemma sent_get_external_ips:
  "sent (snd (get_external_ips w services st)) = sent st @ map get_request services"
  by (simp add: get_external_ips_def loop_sent)




text \<open>
  C5, as the code has it. A failure of an endpoint is a GET that raises; a response is
  taken whatever its status. \<open>get_external_ips\<close> returns a set and never an error (its
  result has no error summand: \<^verbatim>\<open>except Exception\<close> catches what the GET raises).
  Every endpoint is queried, in order, whatever happened to the ones before it; the
  returned elements are distinct; an endpoint whose GET raises leaves an error entry in
  the log, with its URL and the exception; an endpoint that answers with a body that
  is not empty after stripping has that body in the set; when every GET raises the set
  is empty; and the error entries that the call adds to the log are those of the GETs
  that raised, in order, and no other.
\<close>

theorem get_external_ips_isolation:
  "sent (snd (get_external_ips w services st)) = sent st @ map get_request services
   \<and> distinct (fst (get_external_ips w services st))
   \<and> (\<forall>i msg. i < length services \<and> replies w (sent st) services ! i = Inl msg \<longrightarrow>
         (ERROR, ''%s: %s'', [V (JStr (services ! i)), X (RequestException msg)])
           \<in> set (logged (snd (get_external_ips w services st))))
   \<and> (\<forall>i r. i < length services \<and> replies w (sent st) services ! i = Inr r
              \<and> strip (text_of r) \<noteq> [] \<longrightarrow>
         strip (text_of r) \<in> set (fst (get_external_ips w services st)))
   \<and> ((\<forall>x \<in> set (replies w (sent st) services). isl x) \<longrightarrow>
         fst (get_external_ips w services st) = [])
   \<and> [e \<leftarrow> logged (snd (get_external_ips w services st)). fst e = ERROR] =
       [e \<leftarrow> logged st. fst e = ERROR] @
       [(ERROR, ''%s: %s'', [V (JStr s), X (RequestException msg)]).
          (s, Inl msg) \<leftarrow> zip services (replies w (sent st) services)]"
proof (intro conjI allI impI)
  show "sent (snd (get_external_ips w services st)) = sent st @ map get_request services"
    by (rule sent_get_external_ips)
  show "distinct (fst (get_external_ips w services st))"
    by (simp add: get_external_ips_def loop_distinct)
next
  fix i msg
  assume "i < length services \<and> replies w (sent st) services ! i = Inl msg"
  then show "(ERROR, ''%s: %s'', [V (JStr (services ! i)), X (RequestException msg)])
           \<in> set (logged (snd (get_external_ips w services st)))"
    unfolding get_external_ips_def
    using loop_error_logged[of i services w
            "log_call DEBUG ''Getting external IP addresses ...'' [] st" msg "[]"]
    by simp
next
  fix i r
  assume a: "i < length services \<and> replies w (sent st) services ! i = Inr r
              \<and> strip (text_of r) \<noteq> []"
  then have "Inr r \<in> set (replies w (sent st) services)"
    by (metis length_replies nth_mem)
  with a show "strip (text_of r) \<in> set (fst (get_external_ips w services st))"
    by (auto simp: get_external_ips_def loop_set)
next
  assume "\<forall>x \<in> set (replies w (sent st) services). isl x"
  then have "set (fst (get_external_ips w services st)) = {}"
    by (auto simp: get_external_ips_def loop_set)
  then show "fst (get_external_ips w services st) = []" by simp
next
  show "[e \<leftarrow> logged (snd (get_external_ips w services st)). fst e = ERROR] =
       [e \<leftarrow> logged st. fst e = ERROR] @
       [(ERROR, ''%s: %s'', [V (JStr s), X (RequestException msg)]).
          (s, Inl msg) \<leftarrow> zip services (replies w (sent st) services)]"
    unfolding get_external_ips_def
    using loop_errors[of w services "[]"
            "log_call DEBUG ''Getting external IP addresses ...'' [] st"]
    by simp
qed

theorem get_external_ips_isolation_witness:
  "''192.0.2.1'' \<in> set (fst (get_external_ips (example_world example_env (example_network 9 []))
                               [''https://icanhazip.com'', ''https://api.ipify.org''] st0))
   \<and> (ERROR, ''%s: %s'', [V (JStr ''https://icanhazip.com''), X (RequestException ''timed out'')])
       \<in> set (logged (snd (get_external_ips (example_world example_env (example_network 9 []))
                               [''https://icanhazip.com'', ''https://api.ipify.org''] st0)))
   \<and> sent (snd (get_external_ips (example_world example_env (example_network 9 []))
                  [''https://icanhazip.com'', ''https://api.ipify.org''] st0))
       = [get_request ''https://icanhazip.com'', get_request ''https://api.ipify.org'']
   \<and> fst (get_external_ips (example_world example_env (example_network 9 []))
            [''https://icanhazip.com''] st0) = []"
proof -
  let ?w = "example_world example_env (example_network 9 [])"
  let ?r1 = "\<lparr>status = 200, text_of = ''192.0.2.1'' @ [CHR 0x0A], parsed = None\<rparr>"
  have r: "replies ?w (sent st0) [''https://icanhazip.com'', ''https://api.ipify.org'']
             = [Inl ''timed out'', Inr ?r1]"
    by code_simp
  have r': "replies ?w (sent st0) [''https://icanhazip.com''] = [Inl ''timed out'']"
    by code_simp
  have s1: "strip (text_of ?r1) = ''192.0.2.1''" by code_simp
  note two = get_external_ips_isolation[of ?w "[''https://icanhazip.com'', ''https://api.ipify.org'']" st0]
  note one = get_external_ips_isolation[of ?w "[''https://icanhazip.com'']" st0]
  have a: "''192.0.2.1'' \<in> set (fst (get_external_ips ?w
             [''https://icanhazip.com'', ''https://api.ipify.org''] st0))"
    using two[THEN conjunct2, THEN conjunct2, THEN conjunct2, THEN conjunct1, rule_format,
              of 1 ?r1] r s1
    by simp
  have b: "(ERROR, ''%s: %s'', [V (JStr ''https://icanhazip.com''), X (RequestException ''timed out'')])
       \<in> set (logged (snd (get_external_ips ?w
                               [''https://icanhazip.com'', ''https://api.ipify.org''] st0)))"
    using two[THEN conjunct2, THEN conjunct2, THEN conjunct1, rule_format, of 0 "''timed out''"] r
    by simp
  have c: "sent (snd (get_external_ips ?w [''https://icanhazip.com'', ''https://api.ipify.org''] st0))
       = [get_request ''https://icanhazip.com'', get_request ''https://api.ipify.org'']"
    using two[THEN conjunct1] by (simp add: st0_def)
  have d: "fst (get_external_ips ?w [''https://icanhazip.com''] st0) = []"
    using one[THEN conjunct2, THEN conjunct2, THEN conjunct2, THEN conjunct2] r' by simp
  from a b c d show ?thesis by blast
qed

text \<open>
  The claim C5 itself counts an answer with a status that is not 2xx among the
  failures that are logged and skipped, and it fails: the code does not look at the
  status. Here the only endpoint answers 404 with a page; no error is logged and the
  page is the one element of the returned set, which is not empty though every
  endpoint failed.
\<close>

theorem get_external_ips_unchecked_status_counterexample:
  "replies (example_world example_env (example_network 9 [])) (sent st0) [''https://example.org/ip'']
     = [Inr \<lparr>status = 404, text_of = ''<html>Not Found</html>'' @ [CHR 0x0A], parsed = None\<rparr>]
   \<and> get_external_ips (example_world example_env (example_network 9 []))
        [''https://example.org/ip''] st0
     = ([''<html>Not Found</html>''],
        \<lparr>sent = [get_request ''https://example.org/ip''],
         logged = [(DEBUG, ''Getting external IP addresses ...'', []),
                   (DEBUG, ''%s: %s'', [V (JStr ''https://example.org/ip''),
                                        V (JStr ''<html>Not Found</html>'')])]\<rparr>)"
  by code_simp

subsection \<open>The loop over the addresses\<close>

text \<open>Where an exception can come from: an \<^verbatim>\<open>HTTPError\<close> only from
  \<^verbatim>\<open>raise_for_status\<close> in \<open>call_api\<close>, right after the error line of the log.\<close>

lemma getitem_error: "getitem d k = Inl e \<Longrightarrow> e = KeyError \<or> e = TypeError"
  by (cases d) (auto split: option.splits)

lemma getitem0_error: "getitem0 d = Inl e \<Longrightarrow> e = KeyError \<or> e = TypeError \<or> e = IndexError"
  by (cases d) (auto split: list.splits)

lemma py_in_error: "py_in k d = Inl e \<Longrightarrow> e = TypeError"
  by (cases d) auto

lemma has_result_error: "has_result d = Inl e \<Longrightarrow> e = KeyError \<or> e = TypeError"
  unfolding has_result_def
  by (auto split: sum.splits bool.splits dest: py_in_error getitem_error)

lemma unchanged_error: "unchanged rec val proxy = Inl e \<Longrightarrow> e = KeyError \<or> e = TypeError"
  unfolding unchanged_def
  by (auto split: sum.splits if_splits dest: getitem_error)

lemma get_record_type_error:
  "fst (get_record_type w ip st) = Inl e \<Longrightarrow> e = ValueError ''embedded null character''"
  by (auto simp: get_record_type_def is_ipv4_def is_ipv6_def socket_inet_pton_def Let_def
           split: sum.splits option.splits if_splits error.splits)

lemma call_api_HTTPError:
  "call_api w self meth req_path ps data st = (Inl (HTTPError n), st') \<Longrightarrow>
   request_failed_logged st'"
  unfolding call_api_def Let_def send_def request_failed_logged_def
  by (auto split: sum.splits option.splits if_splits)

lemma get_existing_rec_HTTPError:
  assumes "get_existing_rec w self name rt st = (Inl (HTTPError n), st')"
  shows "request_failed_logged st'"
proof -
  let ?st1 = "log_call DEBUG ''%s type:%s: Checking for existing record ...''
                  [V (JStr name), V (JStr rt)] st"
  let ?c = "call_api w self ''GET'' (DnsRecords (zone_id self))
              (Some [(''name'', name), (''type'', rt)]) None ?st1"
  obtain x st2 where c: "?c = (x, st2)" by (cases ?c)
  show ?thesis
  proof (cases x)
    case (Inl e)
    with assms c have "e = HTTPError n" "st' = st2"
      by (simp_all add: get_existing_rec_def Let_def)
    with c Inl show ?thesis using call_api_HTTPError by blast
  next
    case (Inr d)
    with assms c show ?thesis
      by (auto simp: get_existing_rec_def Let_def split: sum.splits bool.splits
               dest: has_result_error getitem_error getitem0_error)
  qed
qed


lemma set_record_HTTPError:
  assumes r: "set_record w self name val proxy st = (Inl (HTTPError n), st')"
  shows "request_failed_logged st'"
proof -
  let ?st1 = "log_call DEBUG ''%s: Getting record type ...'' [V (JStr val)] st"
  obtain x where g: "get_record_type w val st = (x, ?st1)"
    using get_record_type_pair[of w val st] by blast
  show ?thesis
  proof (cases x)
    case (Inl e)
    then have "e = ValueError ''embedded null character''"
      using get_record_type_error[of w val st e] g by simp
    with g Inl r show ?thesis by (simp add: set_record_def)
  next
    case (Inr rto)
    note x = this
    show ?thesis
    proof (cases "rto = None \<or> rto = Some []")
      case True
      with g x r show ?thesis by (auto simp: set_record_def)
    next
      case False
      then obtain rt where rt: "rto = Some rt" "rt \<noteq> []" by (cases rto) auto
      obtain y st2 where e: "get_existing_rec w self name rt ?st1 = (y, st2)"
        by (cases "get_existing_rec w self name rt ?st1")
      show ?thesis
      proof (cases y)
        case (Inl e')
        with g x rt e r have "e' = HTTPError n" "st' = st2"
          by (simp_all add: set_record_def)
        with e Inl show ?thesis using get_existing_rec_HTTPError by blast
      next
        case (Inr rec)
        note y = this
        show ?thesis
        proof (cases "truthy rec")
          case False
          let ?st3 = "log_call INFO ''Adding new record: %s %s %s proxied:%s ...''
                        [V (JStr name), V (JStr rt), V (JStr val), V (JBool proxy)] st2"
          let ?c = "call_api w self ''POST'' (DnsRecords (zone_id self)) None
                      (Some (JObj (record_data name rt val proxy))) ?st3"
          obtain z st4 where c: "?c = (z, st4)" by (cases ?c)
          from g x rt e y False c r have "z = Inl (HTTPError n)" "st' = st4"
            by (auto simp: set_record_def Let_def split: sum.splits)
          with c show ?thesis using call_api_HTTPError by blast
        next
          case True
          note t = this
          show ?thesis
          proof (cases "getitem rec ''id''")
            case (Inl e')
            with g x rt e y t r getitem_error[of rec "''id''" e'] show ?thesis
              by (auto simp: set_record_def)
          next
            case (Inr rec_id)
            note i = this
            show ?thesis
            proof (cases "unchanged rec val proxy")
              case (Inl e')
              with g x rt e y t i r unchanged_error[of rec val proxy e'] show ?thesis
                by (auto simp: set_record_def)
            next
              case (Inr same)
              note u = this
              show ?thesis
              proof (cases same)
                case True
                with g x rt e y t i u r show ?thesis by (simp add: set_record_def)
              next
                case False
                note f = this
                let ?st3 = "log_call INFO ''Updating record: %s %s %s proxied:%s id:%s ...''
                              [V (JStr name), V (JStr rt), V (JStr val), V (JBool proxy), V rec_id] st2"
                show ?thesis
                proof (cases "\<exists>k. rec_id = JStr k")
                  case False
                  with g x rt e y t i u f r show ?thesis
                    by (cases rec_id) (simp_all add: set_record_def Let_def)
                next
                  case True
                  then obtain k where k: "rec_id = JStr k" by blast
                  let ?c = "call_api w self ''PUT'' (DnsRecord (zone_id self) k) None
                      (Some (JObj (record_data name rt val proxy @ [(''id'', rec_id)]))) ?st3"
                  obtain z st4 where c: "?c = (z, st4)" by (cases ?c)
                  from g x rt e y t i u f k c r have "z = Inl (HTTPError n)" "st' = st4"
                    by (auto simp: set_record_def Let_def split: sum.splits)
                  with c show ?thesis using call_api_HTTPError by blast
                qed
              qed
            qed
          qed
        qed
      qed
    qed
  qed
qed

lemma set_records_append:
  "set_records w cf name proxy before st = (Inr (), st1) \<Longrightarrow>
   set_records w cf name proxy (before @ ips) st = set_records w cf name proxy ips st1"
proof (induction before arbitrary: st)
  case Nil
  then show ?case by simp
next
  case (Cons ip before)
  obtain x st' where s: "set_record w cf name ip proxy st = (x, st')"
    by (cases "set_record w cf name ip proxy st")
  show ?case
  proof (cases x)
    case (Inl e)
    with s Cons.prems show ?thesis by simp
  next
    case (Inr u)
    with s Cons.prems have "set_records w cf name proxy before st' = (Inr (), st1)" by simp
    from Cons.IH[OF this] s Inr show ?thesis by simp
  qed
qed

text \<open>
  C2, as the code has it. The loop handles the addresses one after the other and
  nothing catches what \<open>set_record\<close> raises: when the addresses \<open>before\<close> were handled
  without an exception and \<open>set_record\<close> raises for \<open>ip\<close>, the loop ends with that
  exception in the state \<open>set_record\<close> left, whatever addresses \<open>rest\<close> come after, so
  none of them is attempted. When the exception is an \<^verbatim>\<open>HTTPError\<close>, the last call
  to the logger is the error line \<^verbatim>\<open>Request failed\<close> of \<open>call_api\<close>.
\<close>

theorem set_records_stops_at_error:
  assumes "set_records w cf name proxy before st = (Inr (), st1)"
    and "set_record w cf name ip proxy st1 = (Inl e, st2)"
  shows "set_records w cf name proxy (before @ ip # rest) st = (Inl e, st2)
       \<and> (\<forall>n. e = HTTPError n \<longrightarrow> request_failed_logged st2)"
proof
  show "set_records w cf name proxy (before @ ip # rest) st = (Inl e, st2)"
    using set_records_append[OF assms(1), of "ip # rest"] assms(2) by simp
  show "\<forall>n. e = HTTPError n \<longrightarrow> request_failed_logged st2"
    using assms(2) set_record_HTTPError by blast
qed

theorem set_records_stops_at_error_witness:
  "fst (set_records
          (example_world example_env
             (example_network 1 [example_record ''r1'' ''192.0.2.1'' False]))
          example_cf ''home.example.com'' False
          ([''192.0.2.1''] @ ''2001:db8::1'' # [''192.0.2.7'']) st0) = Inl (HTTPError 500)
   \<and> request_failed_logged
        (snd (set_records
          (example_world example_env
             (example_network 1 [example_record ''r1'' ''192.0.2.1'' False]))
          example_cf ''home.example.com'' False
          ([''192.0.2.1''] @ ''2001:db8::1'' # [''192.0.2.7'']) st0))"
proof -
  let ?w = "example_world example_env
              (example_network 1 [example_record ''r1'' ''192.0.2.1'' False])"
  let ?st1 = "snd (set_records ?w example_cf ''home.example.com'' False [''192.0.2.1''] st0)"
  let ?st2 = "snd (set_record ?w example_cf ''home.example.com'' ''2001:db8::1'' False ?st1)"
  have "fst (set_records ?w example_cf ''home.example.com'' False [''192.0.2.1''] st0) = Inr ()"
    by code_simp
  then have before:
    "set_records ?w example_cf ''home.example.com'' False [''192.0.2.1''] st0 = (Inr (), ?st1)"
    by (simp add: prod_eq_iff)
  have "fst (set_record ?w example_cf ''home.example.com'' ''2001:db8::1'' False ?st1)
          = Inl (HTTPError 500)"
    by code_simp
  then have failing:
    "set_record ?w example_cf ''home.example.com'' ''2001:db8::1'' False ?st1
       = (Inl (HTTPError 500), ?st2)"
    by (simp add: prod_eq_iff)
  from set_records_stops_at_error[OF before failing, of "[''192.0.2.7'']"]
  show ?thesis by simp
qed

text \<open>
  The claim C2 itself, that a provider error for one address does not keep the
  remaining addresses from being attempted, fails: here the provider answers 500 after
  the zone lookup, the two endpoints give an IPv4 and an IPv6 address, and the run ends
  with the \<^verbatim>\<open>HTTPError\<close> of the first lookup; no request is sent and no line is
  logged for the second address.
\<close>

theorem main_aborts_counterexample:
  "fst (main (example_world example_env (example_network 1 []))
          \<lparr>arg_name = ''home.example.com'', arg_proxy = False,
           arg_ip_services = [''https://api.ipify.org'', ''https://api6.ipify.org''],
           arg_log_level = ''INFO''\<rparr> st0) = Inl (HTTPError 500)
   \<and> sent (snd (main (example_world example_env (example_network 1 []))
          \<lparr>arg_name = ''home.example.com'', arg_proxy = False,
           arg_ip_services = [''https://api.ipify.org'', ''https://api6.ipify.org''],
           arg_log_level = ''INFO''\<rparr> st0))
     = [api_request example_cf ''GET'' Zones (Some [(''name'', ''example.com'')]) None,
        get_request ''https://api.ipify.org'',
        get_request ''https://api6.ipify.org'',
        api_request example_cf ''GET'' (DnsRecords (JStr ''z1''))
          (Some [(''name'', ''home.example.com''), (''type'', ''A'')]) None]
   \<and> (DEBUG, ''%s: Getting record type ...'', [V (JStr ''192.0.2.1'')])
       \<in> set (logged (snd (main (example_world example_env (example_network 1 []))
          \<lparr>arg_name = ''home.example.com'', arg_proxy = False,
           arg_ip_services = [''https://api.ipify.org'', ''https://api6.ipify.org''],
           arg_log_level = ''INFO''\<rparr> st0)))
   \<and> (DEBUG, ''%s: Getting record type ...'', [V (JStr ''2001:db8::1'')])
       \<notin> set (logged (snd (main (example_world example_env (example_network 1 []))
          \<lparr>arg_name = ''home.example.com'', arg_proxy = False,
           arg_ip_services = [''https://api.ipify.org'', ''https://api6.ipify.org''],
           arg_log_level = ''INFO''\<rparr> st0)))
   \<and> fst (get_external_ips (example_world example_env (example_network 1 []))
            [''https://api.ipify.org'', ''https://api6.ipify.org''] st0)
       = [''192.0.2.1'', ''2001:db8::1'']"
  by code_simp

subsection \<open>From the hostname to the zone lookup\<close>

lemma sent_set_records:
  "\<exists>rqs. sent (snd (set_records w cf name proxy ips st)) = sent st @ rqs"
proof (induction ips arbitrary: st)
  case Nil
  then show ?case by simp
next
  case (Cons ip ips)
  obtain x st1 where s: "set_record w cf name ip proxy st = (x, st1)"
    by (cases "set_record w cf name ip proxy st")
  obtain rqs where r: "sent st1 = sent st @ rqs"
    using set_record_at_most_one_write[of w cf name ip proxy st] s by auto
  show ?case
  proof (cases x)
    case (Inl e)
    with s r show ?thesis by simp
  next
    case (Inr u)
    obtain rqs' where "sent (snd (set_records w cf name proxy ips st1)) = sent st1 @ rqs'"
      using Cons.IH[of st1] by blast
    with s r Inr show ?thesis by simp
  qed
qed

lemma run_failed_constructor:
  "Cloudflare_init w domain (arg_log_level a) st = (Inl e, st1) \<Longrightarrow>
   run w a domain st = (Inl e, st1)"
  by (simp add: run_def)

lemma run_zone_lookup:
  assumes c: "Cloudflare_init w domain (arg_log_level a) st = (Inr cf, st1)"
  shows "\<exists>rest. sent (snd (run w a domain st)) =
           sent st @ api_request cf ''GET'' Zones (Some [(''name'', domain)]) None # rest"
proof -
  obtain ips st2 where g: "get_external_ips w (arg_ip_services a) st1 = (ips, st2)"
    by (cases "get_external_ips w (arg_ip_services a) st1")
  have s1: "sent st1 = sent st @ [api_request cf ''GET'' Zones (Some [(''name'', domain)]) None]"
    by (rule Cloudflare_init_Inr_sent[OF c])
  have s2: "sent st2 = sent st1 @ map get_request (arg_ip_services a)"
    using sent_get_external_ips[of w "arg_ip_services a" st1] g by simp
  obtain rqs where
    "sent (snd (set_records w cf (arg_name a) (arg_proxy a) (set_order w ips) st2)) = sent st2 @ rqs"
    using sent_set_records by blast
  with c g s1 s2 show ?thesis by (simp add: run_def)
qed

text \<open>
  C7. A hostname with a dot is \<open>p @ l1 @ ''.'' @ l2\<close>, where \<open>l1\<close> and \<open>l2\<close> hold no
  dot and \<open>p\<close> is empty or ends with a dot: \<open>l1\<close> and \<open>l2\<close> are its last two labels.
  The script hands the domain \<open>l1 @ ''.'' @ l2\<close> to the constructor: when the
  constructor fails for this domain the script fails with the same exception in the
  same state, and when it succeeds the first request of the script is the zone lookup
  whose \<^verbatim>\<open>name\<close> parameter is this domain. For a hostname without a dot the script
  raises \<^verbatim>\<open>ValueError\<close> with the state as it was: nothing has been sent.
\<close>

theorem main_registrable_domain:
  "(CHR ''.'' \<in> set (arg_name a) \<longrightarrow>
      (\<exists>p l1 l2. arg_name a = p @ l1 @ ''.'' @ l2 \<and> (p = [] \<or> last p = CHR ''.'')
         \<and> CHR ''.'' \<notin> set l1 \<and> CHR ''.'' \<notin> set l2
         \<and> registrable_domain (arg_name a) = Inr (l1 @ ''.'' @ l2)
         \<and> main w a st = run w a (l1 @ ''.'' @ l2) st
         \<and> (\<forall>e st1. Cloudflare_init w (l1 @ ''.'' @ l2) (arg_log_level a) st = (Inl e, st1) \<longrightarrow>
               main w a st = (Inl e, st1))
         \<and> (\<forall>cf st1. Cloudflare_init w (l1 @ ''.'' @ l2) (arg_log_level a) st = (Inr cf, st1) \<longrightarrow>
               (\<exists>rest. sent (snd (main w a st)) =
                  sent st @
                  api_request cf ''GET'' Zones (Some [(''name'', l1 @ ''.'' @ l2)]) None # rest))))
   \<and> (CHR ''.'' \<notin> set (arg_name a) \<longrightarrow>
        main w a st = (Inl (ValueError (arg_name a @ '' is not a valid hostname'')), st))"
proof (intro conjI impI)
  assume "CHR ''.'' \<in> set (arg_name a)"
  from registrable_domain_labels[OF this]
  obtain p l1 l2 where l: "arg_name a = p @ l1 @ ''.'' @ l2" "p = [] \<or> last p = CHR ''.''"
      "CHR ''.'' \<notin> set l1" "CHR ''.'' \<notin> set l2"
    and d: "registrable_domain (arg_name a) = Inr (l1 @ ''.'' @ l2)"
    by blast
  have m: "main w a st = run w a (l1 @ ''.'' @ l2) st"
    using d by (simp add: main_def)
  have f: "\<forall>e st1. Cloudflare_init w (l1 @ ''.'' @ l2) (arg_log_level a) st = (Inl e, st1) \<longrightarrow>
               main w a st = (Inl e, st1)"
    using m run_failed_constructor by simp
  have z: "\<forall>cf st1. Cloudflare_init w (l1 @ ''.'' @ l2) (arg_log_level a) st = (Inr cf, st1) \<longrightarrow>
               (\<exists>rest. sent (snd (main w a st)) =
                  sent st @
                  api_request cf ''GET'' Zones (Some [(''name'', l1 @ ''.'' @ l2)]) None # rest)"
    using m run_zone_lookup by simp
  from l d m f z
  show "\<exists>p l1 l2. arg_name a = p @ l1 @ ''.'' @ l2 \<and> (p = [] \<or> last p = CHR ''.'')
         \<and> CHR ''.'' \<notin> set l1 \<and> CHR ''.'' \<notin> set l2
         \<and> registrable_domain (arg_name a) = Inr (l1 @ ''.'' @ l2)
         \<and> main w a st = run w a (l1 @ ''.'' @ l2) st
         \<and> (\<forall>e st1. Cloudflare_init w (l1 @ ''.'' @ l2) (arg_log_level a) st = (Inl e, st1) \<longrightarrow>
               main w a st = (Inl e, st1))
         \<and> (\<forall>cf st1. Cloudflare_init w (l1 @ ''.'' @ l2) (arg_log_level a) st = (Inr cf, st1) \<longrightarrow>
               (\<exists>rest. sent (snd (main w a st)) =
                  sent st @
                  api_request cf ''GET'' Zones (Some [(''name'', l1 @ ''.'' @ l2)]) None # rest))"
    by blast
next
  assume "CHR ''.'' \<notin> set (arg_name a)"
  then show "main w a st = (Inl (ValueError (arg_name a @ '' is not a valid hostname'')), st)"
    by (simp add: main_def registrable_domain_def)
qed

theorem main_registrable_domain_witness:
  "hd (sent (snd (main (example_world example_env (example_network 9 []))
         \<lparr>arg_name = ''sub.example.co.uk'', arg_proxy = False,
          arg_ip_services = [''https://api.ipify.org''], arg_log_level = ''INFO''\<rparr> st0)))
     = api_request example_cf ''GET'' Zones (Some [(''name'', ''co.uk'')]) None
   \<and> main (example_world example_env (example_network 9 []))
       \<lparr>arg_name = ''localhost'', arg_proxy = False,
        arg_ip_services = [''https://api.ipify.org''], arg_log_level = ''INFO''\<rparr> st0
     = (Inl (ValueError ''localhost is not a valid hostname''), st0)"
proof -
  let ?w = "example_world example_env (example_network 9 [])"
  let ?a = "\<lparr>arg_name = ''sub.example.co.uk'', arg_proxy = False,
             arg_ip_services = [''https://api.ipify.org''], arg_log_level = ''INFO''\<rparr>"
  let ?b = "\<lparr>arg_name = ''localhost'', arg_proxy = False,
             arg_ip_services = [''https://api.ipify.org''], arg_log_level = ''INFO''\<rparr>"
  have dot: "CHR ''.'' \<in> set (arg_name ?a)" by simp
  have nodot: "CHR ''.'' \<notin> set (arg_name ?b)" by simp
  have d: "registrable_domain (arg_name ?a) = Inr ''co.uk''" by code_simp
  have "fst (Cloudflare_init ?w ''co.uk'' (arg_log_level ?a) st0) = Inr example_cf"
    by code_simp
  then have c: "Cloudflare_init ?w ''co.uk'' (arg_log_level ?a) st0
                  = (Inr example_cf, snd (Cloudflare_init ?w ''co.uk'' (arg_log_level ?a) st0))"
    by (simp add: prod_eq_iff)
  from main_registrable_domain[of ?a ?w st0] dot
  obtain p l1 l2 where r: "registrable_domain (arg_name ?a) = Inr (l1 @ ''.'' @ l2)"
    and z: "\<forall>cf st1. Cloudflare_init ?w (l1 @ ''.'' @ l2) (arg_log_level ?a) st0 = (Inr cf, st1) \<longrightarrow>
               (\<exists>rest. sent (snd (main ?w ?a st0)) =
                  sent st0 @
                  api_request cf ''GET'' Zones (Some [(''name'', l1 @ ''.'' @ l2)]) None # rest)"
    by blast
  from r d have e: "l1 @ ''.'' @ l2 = ''co.uk''" by simp
  from z c obtain rest where "sent (snd (main ?w ?a st0)) =
      sent st0 @ api_request example_cf ''GET'' Zones (Some [(''name'', ''co.uk'')]) None # rest"
    unfolding e by blast
  then have 1: "hd (sent (snd (main ?w ?a st0)))
                  = api_request example_cf ''GET'' Zones (Some [(''name'', ''co.uk'')]) None"
    by (simp add: st0_def)
  from main_registrable_domain[of ?b ?w st0] nodot
  have 2: "main ?w ?b st0 = (Inl (ValueError ''localhost is not a valid hostname''), st0)"
    by simp
  from 1 2 show ?thesis by blast
qed

end
